theory Spec2Isabelle
  imports Complex_Main
begin

section \<open>The financial-document transaction engine of public/api.php\<close>

text \<open>
  This theory embeds the four actions of \<^verbatim>\<open>public/api.php\<close> that carry cross-table
  semantics: \<^verbatim>\<open>get_next_document_number\<close> (with its internal twin
  \<^verbatim>\<open>getNextDocumentNumberInternal\<close>), \<^verbatim>\<open>create_receipt_with_items_transaction\<close>,
  \<^verbatim>\<open>delete_invoice_with_cascade\<close> and \<^verbatim>\<open>delete_receipt_with_cascade\<close>.

  Conventions of the embedding:
  \<^item> The relational store is a record of tables; a table is the list of its rows in
    insertion order. \<^verbatim>\<open>SELECT ... LIMIT 1\<close> reads the first matching row,
    \<^verbatim>\<open>DELETE ... WHERE\<close> filters, \<^verbatim>\<open>UPDATE ... WHERE\<close> maps over the rows.
  \<^item> Every \<^verbatim>\<open>$conn->query(...)\<close>, \<^verbatim>\<open>begin_transaction()\<close> and \<^verbatim>\<open>commit()\<close> may fail.
    Which statements fail is a parameter \<open>faults\<close> of every operation, so that each
    \<^verbatim>\<open>throw\<close> of the source is a branch of the model.
  \<^item> \<^verbatim>\<open>begin_transaction()\<close> remembers the store; \<^verbatim>\<open>rollback()\<close> returns to the
    remembered store; a statement issued outside a transaction is kept at once
    (autocommit).
  \<^item> Monetary amounts are exact rationals. The binary rounding of PHP floats and the
    scale of the \<^verbatim>\<open>DECIMAL\<close> columns are outside the model.
  \<^item> The field \<open>journal\<close> of the store lists the writing statements
    (\<^verbatim>\<open>INSERT\<close>, \<^verbatim>\<open>UPDATE\<close>, \<^verbatim>\<open>DELETE\<close>) applied to it so far, oldest first. It
    is what makes the order of the writes observable.
  \<^item> An exception is a value of type \<open>error\<close>; the constructors follow the messages of
    the source, and a re-thrown exception wraps the one it caught.
\<close>

subsection \<open>Statements and errors\<close>

datatype stmt =
    SeqCheck string | SeqInsert string | SeqUpdate string | SeqFetch string
  | BeginTransaction | Commit
  | InsInvoice | InsInvoiceItem nat | InsPayment | InsAllocation | InsReceipt
  | InsReceiptItem nat
  | SelInvoice | SelPayment | SelPayments | SelReceipt | SelInvoiceCheck | SelPaidSum
  | DelAuditLog | DelReceiptItems | DelReceipts | DelAllocations | DelPayments
  | DelCreditNoteAllocations | DelStockMovements | DelInvoiceItems | DelInvoice
  | DelPayment | UpdInvoice | DelReceipt

datatype error =
    MissingDocumentType
  | InvalidDocumentType string
  | InvalidYear int
  | FailedInitializeSequence
  | FailedIncrementSequence
  | FailedFetchSequence
  | MissingCompanyOrCustomer
  | MissingOrInvalidPayment
  | FailedGenerateInvoiceNumber error
  | FailedGeneratePaymentNumber error
  | FailedStartTransaction
  | FailedCommit
  | FailedCreateInvoice | FailedGetInvoiceId
  | FailedCreateInvoiceItem
  | FailedCreatePayment | FailedGetPaymentId
  | FailedCreateAllocation
  | FailedCreateReceipt | FailedGetReceiptId
  | FailedCreateReceiptItem
  | ReceiptCreationFailed error
  | MissingInvoiceId
  | InvoiceNotFound
  | FailedDelete stmt
  | InvoiceDeletionFailed error
  | MissingReceiptId
  | InvalidReceiptId
  | DatabaseQueryError
  | ReceiptNotFound
  | FailedFetchInvoice
  | FailedCalculatePaidAmount
  | FailedUpdateInvoiceStatus
  | ReceiptDeletionFailed error

subsection \<open>Rows and the store\<close>

record seq_row =
  sq_document_type :: string
  sq_year :: int
  sq_sequence_number :: nat

record invoice_row =
  inv_id :: int
  inv_company_id :: int
  inv_customer_id :: int
  inv_invoice_number :: string
  inv_invoice_date :: string
  inv_due_date :: string
  inv_status :: string
  inv_subtotal :: rat
  inv_tax_amount :: rat
  inv_total_amount :: rat
  inv_paid_amount :: rat
  inv_balance_due :: rat
  inv_notes :: string
  inv_created_by :: "int option"

record invoice_item_row =
  ii_invoice_id :: int
  ii_description :: string
  ii_quantity :: rat
  ii_unit_price :: rat
  ii_tax_percentage :: rat
  ii_tax_amount :: rat
  ii_line_total :: rat
  ii_sort_order :: nat

record payment_row =
  pay_id :: int
  pay_company_id :: int
  pay_invoice_id :: "int option"
  pay_payment_date :: string
  pay_payment_method :: string
  pay_amount :: rat
  pay_payment_number :: string
  pay_reference_number :: "string option"
  pay_created_by :: "int option"

record allocation_row =
  pa_id :: int
  pa_payment_id :: int
  pa_invoice_id :: int
  pa_amount :: rat

record receipt_row =
  rc_id :: int
  rc_company_id :: int
  rc_payment_id :: "int option"
  rc_invoice_id :: "int option"
  rc_receipt_number :: string
  rc_receipt_date :: string
  rc_receipt_type :: string
  rc_total_amount :: rat
  rc_excess_amount :: rat
  rc_excess_handling :: string
  rc_notes :: string
  rc_created_by :: "int option"

record receipt_item_row =
  ri_receipt_id :: int
  ri_description :: string
  ri_quantity :: rat
  ri_unit_price :: rat
  ri_tax_percentage :: rat
  ri_tax_amount :: rat
  ri_line_total :: rat
  ri_sort_order :: nat

record audit_row =
  al_payment_id :: "int option"
  al_invoice_id :: "int option"

record credit_note_allocation_row =
  cna_invoice_id :: int

record stock_movement_row =
  sm_reference_type :: string
  sm_reference_id :: int

text \<open>
  The \<open>next_*\<close> fields are the \<^verbatim>\<open>AUTO_INCREMENT\<close> counters behind
  \<^verbatim>\<open>$conn->insert_id\<close> of the four tables whose generated id the source reads.
\<close>

record db =
  document_sequences :: "seq_row list"
  invoices :: "invoice_row list"
  invoice_items :: "invoice_item_row list"
  payments :: "payment_row list"
  payment_allocations :: "allocation_row list"
  receipts :: "receipt_row list"
  receipt_items :: "receipt_item_row list"
  payment_audit_log :: "audit_row list"
  credit_note_allocations :: "credit_note_allocation_row list"
  stock_movements :: "stock_movement_row list"
  next_invoice_id :: int
  next_payment_id :: int
  next_allocation_id :: int
  next_receipt_id :: int
  journal :: "stmt list"

text \<open>What the request handler reads from outside the store.\<close>

record env =
  current_year :: int
  today :: string
  auth_id :: "int option"
  fresh_receipt_number :: string

subsection \<open>Running one statement\<close>

text \<open>
  \<open>query\<close> is \<^verbatim>\<open>if (!$conn->query($sql)) throw new Exception(...)\<close> for a writing
  statement: the statement \<open>s\<close> either fails with the error \<open>e\<close> or applies its effect
  \<open>f\<close> and is entered in the journal.
\<close>

definition query :: "(stmt \<Rightarrow> bool) \<Rightarrow> stmt \<Rightarrow> error \<Rightarrow> (db \<Rightarrow> db) \<Rightarrow> db \<Rightarrow> error + db" where
  "query faults s e f d =
     (if faults s then Inl e else Inr ((f d)\<lparr>journal := journal (f d) @ [s]\<rparr>))"

definition bind_err :: "error + 'a \<Rightarrow> ('a \<Rightarrow> error + 'b) \<Rightarrow> error + 'b" where
  "bind_err m f = (case m of Inl e \<Rightarrow> Inl e | Inr x \<Rightarrow> f x)"

subsection \<open>Sequence allocator\<close>

text \<open>PHP's \<^verbatim>\<open>sprintf('%d', n)\<close> and \<^verbatim>\<open>sprintf('%04d', n)\<close> for a natural number.\<close>

definition digit_char :: "nat \<Rightarrow> char" where
  "digit_char n = ''0123456789'' ! n"

fun show_nat :: "nat \<Rightarrow> string" where
  "show_nat n =
     (if n < 10 then [digit_char n]
      else show_nat (n div 10) @ [digit_char (n mod 10)])"

declare show_nat.simps [simp del]

definition show_int :: "int \<Rightarrow> string" where
  "show_int i = (if i < 0 then CHR ''-'' # show_nat (nat (- i)) else show_nat (nat i))"

definition pad4 :: "nat \<Rightarrow> string" where
  "pad4 n = replicate (4 - length (show_nat n)) CHR ''0'' @ show_nat n"

definition format_document_number :: "string \<Rightarrow> int \<Rightarrow> nat \<Rightarrow> string" where
  "format_document_number ty yr sq = ty @ ''-'' @ show_int yr @ ''-'' @ pad4 sq"

definition seq_matches :: "string \<Rightarrow> int \<Rightarrow> seq_row \<Rightarrow> bool" where
  "seq_matches ty yr r \<longleftrightarrow> sq_document_type r = ty \<and> sq_year r = yr"

text \<open>\<^verbatim>\<open>SELECT sequence_number ... WHERE document_type = ty AND year = yr LIMIT 1\<close>\<close>

definition seq_lookup :: "db \<Rightarrow> string \<Rightarrow> int \<Rightarrow> nat option" where
  "seq_lookup d ty yr =
     (case filter (seq_matches ty yr) (document_sequences d) of
        [] \<Rightarrow> None | r # _ \<Rightarrow> Some (sq_sequence_number r))"

definition seq_insert :: "string \<Rightarrow> int \<Rightarrow> db \<Rightarrow> db" where
  "seq_insert ty yr d =
     d\<lparr>document_sequences := document_sequences d @
         [\<lparr>sq_document_type = ty, sq_year = yr, sq_sequence_number = 0\<rparr>]\<rparr>"

definition seq_increment :: "string \<Rightarrow> int \<Rightarrow> db \<Rightarrow> db" where
  "seq_increment ty yr d =
     d\<lparr>document_sequences :=
         map (\<lambda>r. if seq_matches ty yr r
                  then r\<lparr>sq_sequence_number := sq_sequence_number r + 1\<rparr> else r)
             (document_sequences d)\<rparr>"

text \<open>
  Lines 2198--2228 (and 1439--1466): check the row, insert it with 0 when the check
  finds none (or fails), increment, read back. The result is the sequence number read
  back and the store reached; on an error the store is the one reached so far.
\<close>

definition next_sequence :: "(stmt \<Rightarrow> bool) \<Rightarrow> string \<Rightarrow> int \<Rightarrow> db \<Rightarrow> (error + nat) \<times> db" where
  "next_sequence faults ty yr d =
     (case (if faults (SeqCheck ty) \<or> seq_lookup d ty yr = None
            then query faults (SeqInsert ty) FailedInitializeSequence (seq_insert ty yr) d
            else Inr d) of
        Inl e \<Rightarrow> (Inl e, d)
      | Inr d1 \<Rightarrow>
          (case query faults (SeqUpdate ty) FailedIncrementSequence (seq_increment ty yr) d1 of
             Inl e \<Rightarrow> (Inl e, d1)
           | Inr d2 \<Rightarrow>
               (if faults (SeqFetch ty) then (Inl FailedFetchSequence, d2)
                else (case seq_lookup d2 ty yr of
                        None \<Rightarrow> (Inl FailedFetchSequence, d2)
                      | Some k \<Rightarrow> (Inr k, d2)))))"

definition valid_types_internal :: "string list" where
  "valid_types_internal =
     [''INV'', ''PRO'', ''QT'', ''PO'', ''LPO'', ''DN'', ''CN'', ''PAY'', ''REC'', ''RA'', ''REM'']"


text \<open>
  The year parameter: absent or falsy (\<^verbatim>\<open>!$year\<close>) gives the current year, otherwise the
  value must lie in \<open>[2000, current year + 10]\<close>.
\<close>

definition resolve_year :: "env \<Rightarrow> int option \<Rightarrow> error + int" where
  "resolve_year ev year =
     (case year of
        None \<Rightarrow> Inr (current_year ev)
      | Some y \<Rightarrow>
          (if y = 0 then Inr (current_year ev)
           else if y < 2000 \<or> y > current_year ev + 10 then Inl (InvalidYear y)
           else Inr y))"

text \<open>
  \<^verbatim>\<open>getNextDocumentNumberInternal($type, $year)\<close>, lines 2156--2229. It opens no
  transaction: each of its statements is kept as soon as it has run.
\<close>

definition getNextDocumentNumberInternal ::
  "env \<Rightarrow> (stmt \<Rightarrow> bool) \<Rightarrow> string \<Rightarrow> int option \<Rightarrow> db \<Rightarrow> (error + string) \<times> db" where
  "getNextDocumentNumberInternal ev faults ty year d =
     (if ty \<notin> set valid_types_internal then (Inl (InvalidDocumentType ty), d)
      else (case resolve_year ev year of
              Inl e \<Rightarrow> (Inl e, d)
            | Inr yr \<Rightarrow>
                (case next_sequence faults ty yr d of
                   (Inl e, d') \<Rightarrow> (Inl e, d')
                 | (Inr k, d') \<Rightarrow> (Inr (format_document_number ty yr k), d'))))"


subsection \<open>PHP values\<close>

text \<open>
  \<^verbatim>\<open>!$id\<close> for a request parameter read with \<^verbatim>\<open>?? null\<close>: absent, \<^verbatim>\<open>null\<close> and
  \<^verbatim>\<open>0\<close> are falsy. \<^verbatim>\<open>empty($s)\<close> for a string field: absent, the empty string and
  \<^verbatim>\<open>'0'\<close> are empty. \<^verbatim>\<open>(float)($x ?? 0)\<close> reads an absent number as 0.
\<close>

definition falsy_id :: "int option \<Rightarrow> bool" where
  "falsy_id x \<longleftrightarrow> (case x of None \<Rightarrow> True | Some i \<Rightarrow> i = 0)"

definition int_of :: "int option \<Rightarrow> int" where
  "int_of x = (case x of None \<Rightarrow> 0 | Some i \<Rightarrow> i)"

definition empty_str :: "string option \<Rightarrow> bool" where
  "empty_str x \<longleftrightarrow> (case x of None \<Rightarrow> True | Some s \<Rightarrow> s = [] \<or> s = ''0'')"

definition str_or :: "string option \<Rightarrow> string \<Rightarrow> string" where
  "str_or x dflt = (case x of None \<Rightarrow> dflt | Some s \<Rightarrow> s)"

definition float_of :: "rat option \<Rightarrow> rat" where
  "float_of x = (case x of None \<Rightarrow> 0 | Some v \<Rightarrow> v)"

subsection \<open>Creation: the action create-receipt-with-items-transaction\<close>

record payment_input =
  p_amount :: "rat option"
  p_payment_date :: "string option"
  p_payment_method :: "string option"
  p_payment_number :: "string option"
  p_reference_number :: "string option"

record invoice_input =
  i_invoice_number :: "string option"
  i_total_amount :: "rat option"

record item_input =
  it_description :: "string option"
  it_quantity :: "rat option"
  it_unit_price :: "rat option"
  it_tax_amount :: "rat option"
  it_tax_percentage :: "rat option"

record create_request =
  rq_company_id :: "int option"
  rq_customer_id :: "int option"
  rq_payment :: payment_input
  rq_invoice :: invoice_input
  rq_items :: "item_input list"

record create_response =
  res_receipt :: "receipt_row option"
  res_payment :: "payment_row option"
  res_invoice :: "invoice_row option"
  res_allocation_id :: int
  res_excess_amount :: rat

text \<open>\<^verbatim>\<open>($itemQuantity * $itemPrice) + $itemTax\<close>, lines 2290--2293, 2347 and 2435.\<close>

definition line_total :: "item_input \<Rightarrow> rat" where
  "line_total it =
     float_of (it_quantity it) * float_of (it_unit_price it) + float_of (it_tax_amount it)"

text \<open>Lines 2285--2297: the invoice amount.\<close>

definition invoice_amount :: "invoice_input \<Rightarrow> item_input list \<Rightarrow> rat" where
  "invoice_amount invoiceData its =
     (if its \<noteq> [] then sum_list (map line_total its)
      else (case i_total_amount invoiceData of Some t \<Rightarrow> t | None \<Rightarrow> 0))"

text \<open>
  Lines 2299--2312: status, paid amount and balance due of the new invoice from the
  payment amount \<open>P\<close> and the invoice amount \<open>T\<close>.
\<close>

definition creation_status :: "rat \<Rightarrow> rat \<Rightarrow> string" where
  "creation_status P T = (if P \<ge> T then ''paid'' else if P > 0 then ''partial'' else ''draft'')"

definition creation_paid_amount :: "rat \<Rightarrow> rat \<Rightarrow> rat" where
  "creation_paid_amount P T = (if P \<ge> T then T else if P > 0 then P else 0)"

definition creation_balance_due :: "rat \<Rightarrow> rat \<Rightarrow> rat" where
  "creation_balance_due P T = (if P \<ge> T then 0 else if P > 0 then T - P else T)"

text \<open>
  Step 1, lines 2319--2328. The columns \<^verbatim>\<open>subtotal\<close> and \<^verbatim>\<open>tax_amount\<close> are written
  as the literal \<^verbatim>\<open>'0'\<close>.
\<close>

definition new_invoice_row ::
  "env \<Rightarrow> create_request \<Rightarrow> string \<Rightarrow> int \<Rightarrow> invoice_row" where
  "new_invoice_row ev rq invoiceNumber invoiceId =
     (let P = float_of (p_amount (rq_payment rq));
          paymentDate = str_or (p_payment_date (rq_payment rq)) (today ev);
          T = invoice_amount (rq_invoice rq) (rq_items rq)
      in \<lparr>inv_id = invoiceId,
          inv_company_id = int_of (rq_company_id rq),
          inv_customer_id = int_of (rq_customer_id rq),
          inv_invoice_number = invoiceNumber,
          inv_invoice_date = paymentDate,
          inv_due_date = paymentDate,
          inv_status = creation_status P T,
          inv_subtotal = 0,
          inv_tax_amount = 0,
          inv_total_amount = T,
          inv_paid_amount = creation_paid_amount P T,
          inv_balance_due = creation_balance_due P T,
          inv_notes = ''Direct receipt'',
          inv_created_by = (if falsy_id (auth_id ev) then None else auth_id ev)\<rparr>)"

definition insert_invoice :: "invoice_row \<Rightarrow> db \<Rightarrow> db" where
  "insert_invoice r d =
     d\<lparr>invoices := invoices d @ [r], next_invoice_id := next_invoice_id d + 1\<rparr>"

text \<open>Step 2, lines 2340--2361; \<open>idx\<close> is the loop's \<^verbatim>\<open>$index\<close>.\<close>

definition new_invoice_item_row :: "int \<Rightarrow> nat \<Rightarrow> item_input \<Rightarrow> invoice_item_row" where
  "new_invoice_item_row invoiceId idx it =
     \<lparr>ii_invoice_id = invoiceId,
      ii_description = str_or (it_description it) [],
      ii_quantity = float_of (it_quantity it),
      ii_unit_price = float_of (it_unit_price it),
      ii_tax_percentage = float_of (it_tax_percentage it),
      ii_tax_amount = float_of (it_tax_amount it),
      ii_line_total = line_total it,
      ii_sort_order = idx + 1\<rparr>"

definition add_invoice_item :: "invoice_item_row \<Rightarrow> db \<Rightarrow> db" where
  "add_invoice_item r d = d\<lparr>invoice_items := invoice_items d @ [r]\<rparr>"

fun insert_invoice_items ::
  "(stmt \<Rightarrow> bool) \<Rightarrow> int \<Rightarrow> nat \<Rightarrow> item_input list \<Rightarrow> db \<Rightarrow> error + db" where
  "insert_invoice_items faults invoiceId idx [] d = Inr d"
| "insert_invoice_items faults invoiceId idx (it # its) d =
     bind_err
       (query faults (InsInvoiceItem idx) FailedCreateInvoiceItem
          (add_invoice_item (new_invoice_item_row invoiceId idx it)) d)
       (insert_invoice_items faults invoiceId (idx + 1) its)"

text \<open>Step 3, lines 2363--2379.\<close>

definition new_payment_row ::
  "env \<Rightarrow> create_request \<Rightarrow> string \<Rightarrow> int \<Rightarrow> int \<Rightarrow> payment_row" where
  "new_payment_row ev rq paymentNumber invoiceId paymentId =
     \<lparr>pay_id = paymentId,
      pay_company_id = int_of (rq_company_id rq),
      pay_invoice_id = Some invoiceId,
      pay_payment_date = str_or (p_payment_date (rq_payment rq)) (today ev),
      pay_payment_method = str_or (p_payment_method (rq_payment rq)) ''cash'',
      pay_amount = float_of (p_amount (rq_payment rq)),
      pay_payment_number = paymentNumber,
      pay_reference_number =
        (if empty_str (p_reference_number (rq_payment rq)) then None
         else p_reference_number (rq_payment rq)),
      pay_created_by = (if falsy_id (auth_id ev) then None else auth_id ev)\<rparr>"

definition insert_payment :: "payment_row \<Rightarrow> db \<Rightarrow> db" where
  "insert_payment r d =
     d\<lparr>payments := payments d @ [r], next_payment_id := next_payment_id d + 1\<rparr>"

text \<open>Step 4, lines 2390--2401: the allocation carries the whole payment amount.\<close>

definition new_allocation_row :: "create_request \<Rightarrow> int \<Rightarrow> int \<Rightarrow> int \<Rightarrow> allocation_row" where
  "new_allocation_row rq invoiceId paymentId allocationId =
     \<lparr>pa_id = allocationId,
      pa_payment_id = paymentId,
      pa_invoice_id = invoiceId,
      pa_amount = float_of (p_amount (rq_payment rq))\<rparr>"

definition insert_allocation :: "allocation_row \<Rightarrow> db \<Rightarrow> db" where
  "insert_allocation r d =
     d\<lparr>payment_allocations := payment_allocations d @ [r],
       next_allocation_id := next_allocation_id d + 1\<rparr>"

text \<open>Step 5, lines 2403--2416.\<close>

definition excess_amount :: "rat \<Rightarrow> rat \<Rightarrow> rat" where
  "excess_amount P T = max 0 (P - T)"

definition new_receipt_row ::
  "env \<Rightarrow> create_request \<Rightarrow> int \<Rightarrow> int \<Rightarrow> int \<Rightarrow> receipt_row" where
  "new_receipt_row ev rq invoiceId paymentId receiptId =
     \<lparr>rc_id = receiptId,
      rc_company_id = int_of (rq_company_id rq),
      rc_payment_id = Some paymentId,
      rc_invoice_id = Some invoiceId,
      rc_receipt_number = fresh_receipt_number ev,
      rc_receipt_date = str_or (p_payment_date (rq_payment rq)) (today ev),
      rc_receipt_type = ''direct_receipt'',
      rc_total_amount = float_of (p_amount (rq_payment rq)),
      rc_excess_amount =
        excess_amount (float_of (p_amount (rq_payment rq)))
          (invoice_amount (rq_invoice rq) (rq_items rq)),
      rc_excess_handling = ''pending'',
      rc_notes = ''Direct receipt'',
      rc_created_by = (if falsy_id (auth_id ev) then None else auth_id ev)\<rparr>"

definition insert_receipt :: "receipt_row \<Rightarrow> db \<Rightarrow> db" where
  "insert_receipt r d =
     d\<lparr>receipts := receipts d @ [r], next_receipt_id := next_receipt_id d + 1\<rparr>"

text \<open>Step 6, lines 2427--2449.\<close>

definition new_receipt_item_row :: "int \<Rightarrow> nat \<Rightarrow> item_input \<Rightarrow> receipt_item_row" where
  "new_receipt_item_row receiptId idx it =
     \<lparr>ri_receipt_id = receiptId,
      ri_description = str_or (it_description it) [],
      ri_quantity = float_of (it_quantity it),
      ri_unit_price = float_of (it_unit_price it),
      ri_tax_percentage = float_of (it_tax_percentage it),
      ri_tax_amount = float_of (it_tax_amount it),
      ri_line_total = line_total it,
      ri_sort_order = idx + 1\<rparr>"

definition add_receipt_item :: "receipt_item_row \<Rightarrow> db \<Rightarrow> db" where
  "add_receipt_item r d = d\<lparr>receipt_items := receipt_items d @ [r]\<rparr>"

fun insert_receipt_items ::
  "(stmt \<Rightarrow> bool) \<Rightarrow> int \<Rightarrow> nat \<Rightarrow> item_input list \<Rightarrow> db \<Rightarrow> error + db" where
  "insert_receipt_items faults receiptId idx [] d = Inr d"
| "insert_receipt_items faults receiptId idx (it # its) d =
     bind_err
       (query faults (InsReceiptItem idx) FailedCreateReceiptItem
          (add_receipt_item (new_receipt_item_row receiptId idx it)) d)
       (insert_receipt_items faults receiptId (idx + 1) its)"

text \<open>
  The body of the \<^verbatim>\<open>try\<close> block up to the commit, lines 2283--2449. Each generated id
  is \<^verbatim>\<open>$conn->insert_id\<close> after its insert; the result is the four ids and the store
  reached.
\<close>

definition create_body ::
  "env \<Rightarrow> (stmt \<Rightarrow> bool) \<Rightarrow> create_request \<Rightarrow> string \<Rightarrow> string \<Rightarrow> db
     \<Rightarrow> error + ((int \<times> int \<times> int \<times> int) \<times> db)" where
  "create_body ev faults rq invoiceNumber paymentNumber d =
     (let invoiceId = next_invoice_id d in
      bind_err (query faults InsInvoice FailedCreateInvoice
                  (insert_invoice (new_invoice_row ev rq invoiceNumber invoiceId)) d) (\<lambda>d1.
      if invoiceId = 0 then Inl FailedGetInvoiceId else
      bind_err (insert_invoice_items faults invoiceId 0 (rq_items rq) d1) (\<lambda>d2.
      let paymentId = next_payment_id d2 in
      bind_err (query faults InsPayment FailedCreatePayment
                  (insert_payment (new_payment_row ev rq paymentNumber invoiceId paymentId)) d2) (\<lambda>d3.
      if paymentId = 0 then Inl FailedGetPaymentId else
      let allocationId = next_allocation_id d3 in
      bind_err (query faults InsAllocation FailedCreateAllocation
                  (insert_allocation (new_allocation_row rq invoiceId paymentId allocationId)) d3) (\<lambda>d4.
      let receiptId = next_receipt_id d4 in
      bind_err (query faults InsReceipt FailedCreateReceipt
                  (insert_receipt (new_receipt_row ev rq invoiceId paymentId receiptId)) d4) (\<lambda>d5.
      if receiptId = 0 then Inl FailedGetReceiptId else
      bind_err (insert_receipt_items faults receiptId 0 (rq_items rq) d5) (\<lambda>d6.
      Inr ((invoiceId, paymentId, allocationId, receiptId), d6))))))))"

text \<open>\<^verbatim>\<open>SELECT * FROM t WHERE id = x LIMIT 1\<close>; a failed read gives \<^verbatim>\<open>null\<close>.\<close>

definition find_invoice :: "db \<Rightarrow> int \<Rightarrow> invoice_row option" where
  "find_invoice d i = find (\<lambda>r. inv_id r = i) (invoices d)"

definition find_payment :: "db \<Rightarrow> int \<Rightarrow> payment_row option" where
  "find_payment d i = find (\<lambda>r. pay_id r = i) (payments d)"

definition find_receipt :: "db \<Rightarrow> int \<Rightarrow> receipt_row option" where
  "find_receipt d i = find (\<lambda>r. rc_id r = i) (receipts d)"

definition create_response_of ::
  "(stmt \<Rightarrow> bool) \<Rightarrow> create_request \<Rightarrow> (int \<times> int \<times> int \<times> int) \<Rightarrow> db \<Rightarrow> create_response" where
  "create_response_of faults rq ids d =
     (case ids of (invoiceId, paymentId, allocationId, receiptId) \<Rightarrow>
        \<lparr>res_receipt = (if faults SelReceipt then None else find_receipt d receiptId),
         res_payment = (if faults SelPayment then None else find_payment d paymentId),
         res_invoice = (if faults SelInvoice then None else find_invoice d invoiceId),
         res_allocation_id = allocationId,
         res_excess_amount =
           excess_amount (float_of (p_amount (rq_payment rq)))
             (invoice_amount (rq_invoice rq) (rq_items rq))\<rparr>)"

text \<open>
  Lines 2252--2275: the two document numbers are drawn before the transaction starts,
  each only when the caller supplied none.
\<close>

definition draw_number ::
  "env \<Rightarrow> (stmt \<Rightarrow> bool) \<Rightarrow> string \<Rightarrow> string option \<Rightarrow> db \<Rightarrow> (error + string) \<times> db" where
  "draw_number ev faults ty supplied d =
     (if empty_str supplied then getNextDocumentNumberInternal ev faults ty None d
      else (Inr (str_or supplied []), d))"

text \<open>
  The whole action, lines 2232--2485. The result is the response or the exception, and
  the store the connection is left with.
\<close>

definition create_receipt_with_items_transaction ::
  "env \<Rightarrow> (stmt \<Rightarrow> bool) \<Rightarrow> create_request \<Rightarrow> db \<Rightarrow> (error + create_response) \<times> db" where
  "create_receipt_with_items_transaction ev faults rq d =
     (if falsy_id (rq_company_id rq) \<or> falsy_id (rq_customer_id rq)
      then (Inl MissingCompanyOrCustomer, d)
      else if p_amount (rq_payment rq) = None then (Inl MissingOrInvalidPayment, d)
      else
        (case draw_number ev faults ''INV'' (i_invoice_number (rq_invoice rq)) d of
           (Inl e, d1) \<Rightarrow> (Inl (FailedGenerateInvoiceNumber e), d1)
         | (Inr invoiceNumber, d1) \<Rightarrow>
             (case draw_number ev faults ''PAY'' (p_payment_number (rq_payment rq)) d1 of
                (Inl e, d2) \<Rightarrow> (Inl (FailedGeneratePaymentNumber e), d2)
              | (Inr paymentNumber, d2) \<Rightarrow>
                  (if faults BeginTransaction then (Inl FailedStartTransaction, d2)
                   else
                     (case create_body ev faults rq invoiceNumber paymentNumber d2 of
                        Inl e \<Rightarrow> (Inl (ReceiptCreationFailed e), d2)
                      | Inr (ids, d3) \<Rightarrow>
                          (if faults Commit
                           then (Inl (ReceiptCreationFailed FailedCommit), d2)
                           else (Inr (create_response_of faults rq ids d3), d3)))))))"

subsection \<open>Deletion of an invoice: the action delete-invoice-with-cascade\<close>

record delete_invoice_response =
  dir_invoice_id :: int
  dir_invoice_number :: string
  dir_payments_count :: nat

text \<open>
  Step 2, lines 1744--1755: the ids of the payments linked to the invoice directly or
  through an allocation.
\<close>

definition related_payment_ids :: "db \<Rightarrow> int \<Rightarrow> int list" where
  "related_payment_ids d invoiceId =
     remdups (map pay_id
       (filter (\<lambda>p. pay_invoice_id p = Some invoiceId \<or>
                     pay_id p \<in> set (map pa_payment_id
                       (filter (\<lambda>a. pa_invoice_id a = invoiceId) (payment_allocations d))))
               (payments d)))"

text \<open>\<^verbatim>\<open>x IN (ids)\<close> for a nullable column: \<^verbatim>\<open>NULL\<close> is in no list.\<close>

definition in_ids :: "int option \<Rightarrow> int list \<Rightarrow> bool" where
  "in_ids x ids \<longleftrightarrow> (case x of None \<Rightarrow> False | Some i \<Rightarrow> i \<in> set ids)"

definition del_audit_for_invoice :: "int list \<Rightarrow> int \<Rightarrow> db \<Rightarrow> db" where
  "del_audit_for_invoice ids invoiceId d =
     d\<lparr>payment_audit_log :=
         filter (\<lambda>a. \<not> (in_ids (al_payment_id a) ids \<or> al_invoice_id a = Some invoiceId))
                (payment_audit_log d)\<rparr>"

definition del_receipt_items_of_payments :: "int list \<Rightarrow> db \<Rightarrow> db" where
  "del_receipt_items_of_payments ids d =
     d\<lparr>receipt_items :=
         filter (\<lambda>i. ri_receipt_id i \<notin>
                      set (map rc_id (filter (\<lambda>r. in_ids (rc_payment_id r) ids) (receipts d))))
                (receipt_items d)\<rparr>"

definition del_receipts_of_payments :: "int list \<Rightarrow> db \<Rightarrow> db" where
  "del_receipts_of_payments ids d =
     d\<lparr>receipts := filter (\<lambda>r. \<not> in_ids (rc_payment_id r) ids) (receipts d)\<rparr>"

definition del_allocations_of_invoice :: "int \<Rightarrow> db \<Rightarrow> db" where
  "del_allocations_of_invoice invoiceId d =
     d\<lparr>payment_allocations :=
         filter (\<lambda>a. pa_invoice_id a \<noteq> invoiceId) (payment_allocations d)\<rparr>"

definition del_payments_of_invoice :: "int \<Rightarrow> db \<Rightarrow> db" where
  "del_payments_of_invoice invoiceId d =
     d\<lparr>payments := filter (\<lambda>p. pay_invoice_id p \<noteq> Some invoiceId) (payments d)\<rparr>"

definition del_credit_note_allocations :: "int \<Rightarrow> db \<Rightarrow> db" where
  "del_credit_note_allocations invoiceId d =
     d\<lparr>credit_note_allocations :=
         filter (\<lambda>c. cna_invoice_id c \<noteq> invoiceId) (credit_note_allocations d)\<rparr>"

definition del_stock_movements :: "int \<Rightarrow> db \<Rightarrow> db" where
  "del_stock_movements invoiceId d =
     d\<lparr>stock_movements :=
         filter (\<lambda>m. \<not> (sm_reference_type m = ''INVOICE'' \<and> sm_reference_id m = invoiceId))
                (stock_movements d)\<rparr>"

definition del_invoice_items :: "int \<Rightarrow> db \<Rightarrow> db" where
  "del_invoice_items invoiceId d =
     d\<lparr>invoice_items := filter (\<lambda>i. ii_invoice_id i \<noteq> invoiceId) (invoice_items d)\<rparr>"

definition del_invoice :: "int \<Rightarrow> db \<Rightarrow> db" where
  "del_invoice invoiceId d =
     d\<lparr>invoices := filter (\<lambda>r. inv_id r \<noteq> invoiceId) (invoices d)\<rparr>"

text \<open>
  The body of the \<^verbatim>\<open>try\<close> block up to the commit, lines 1732--1827. A failed read of
  the invoice is reported as not found; a failed read of the payment ids leaves the list
  empty.
\<close>

definition delete_invoice_body ::
  "(stmt \<Rightarrow> bool) \<Rightarrow> int \<Rightarrow> db \<Rightarrow> error + (delete_invoice_response \<times> db)" where
  "delete_invoice_body faults invoiceId d =
     (case (if faults SelInvoice then None else find_invoice d invoiceId) of
        None \<Rightarrow> Inl InvoiceNotFound
      | Some invoice \<Rightarrow>
          (let payment_ids = (if faults SelPayments then [] else related_payment_ids d invoiceId) in
           bind_err (if payment_ids \<noteq> []
                     then query faults DelAuditLog (FailedDelete DelAuditLog)
                            (del_audit_for_invoice payment_ids invoiceId) d
                     else Inr d) (\<lambda>d1.
           bind_err (if payment_ids \<noteq> []
                     then bind_err (query faults DelReceiptItems (FailedDelete DelReceiptItems)
                                      (del_receipt_items_of_payments payment_ids) d1)
                            (query faults DelReceipts (FailedDelete DelReceipts)
                               (del_receipts_of_payments payment_ids))
                     else Inr d1) (\<lambda>d2.
           bind_err (query faults DelAllocations (FailedDelete DelAllocations)
                       (del_allocations_of_invoice invoiceId) d2) (\<lambda>d3.
           bind_err (query faults DelPayments (FailedDelete DelPayments)
                       (del_payments_of_invoice invoiceId) d3) (\<lambda>d4.
           bind_err (query faults DelCreditNoteAllocations (FailedDelete DelCreditNoteAllocations)
                       (del_credit_note_allocations invoiceId) d4) (\<lambda>d5.
           bind_err (query faults DelStockMovements (FailedDelete DelStockMovements)
                       (del_stock_movements invoiceId) d5) (\<lambda>d6.
           bind_err (query faults DelInvoiceItems (FailedDelete DelInvoiceItems)
                       (del_invoice_items invoiceId) d6) (\<lambda>d7.
           bind_err (query faults DelInvoice (FailedDelete DelInvoice)
                       (del_invoice invoiceId) d7) (\<lambda>d8.
           Inr (\<lparr>dir_invoice_id = invoiceId,
                 dir_invoice_number = inv_invoice_number invoice,
                 dir_payments_count = length payment_ids\<rparr>, d8)))))))))))"

text \<open>The whole action, lines 1703--1857.\<close>

definition delete_invoice_with_cascade ::
  "(stmt \<Rightarrow> bool) \<Rightarrow> int option \<Rightarrow> db \<Rightarrow> (error + delete_invoice_response) \<times> db" where
  "delete_invoice_with_cascade faults invoice_id d =
     (if falsy_id invoice_id then (Inl MissingInvoiceId, d)
      else if faults BeginTransaction then (Inl FailedStartTransaction, d)
      else
        (case delete_invoice_body faults (int_of invoice_id) d of
           Inl e \<Rightarrow> (Inl (InvoiceDeletionFailed e), d)
         | Inr (resp, d') \<Rightarrow>
             (if faults Commit then (Inl (InvoiceDeletionFailed FailedCommit), d)
              else (Inr resp, d'))))"

subsection \<open>Deletion of a receipt: the action delete-receipt-with-cascade\<close>

record delete_receipt_response =
  drr_receipt_id :: int
  drr_receipt_number :: string
  drr_invoice_id :: "int option"
  drr_payment_id :: "int option"
  drr_amount_reversed :: rat

text \<open>
  Lines 2640--2665: the paid amount is the sum of the allocations still pointing at the
  invoice, the balance due is clamped at 0, and the status follows from both.
\<close>

definition allocated_sum :: "db \<Rightarrow> int \<Rightarrow> rat" where
  "allocated_sum d invoiceId =
     sum_list (map pa_amount (filter (\<lambda>a. pa_invoice_id a = invoiceId) (payment_allocations d)))"

definition recomputed_balance_due :: "rat \<Rightarrow> rat \<Rightarrow> rat" where
  "recomputed_balance_due total_amount paid_amount = max 0 (total_amount - paid_amount)"

definition recomputed_status :: "rat \<Rightarrow> rat \<Rightarrow> string" where
  "recomputed_status paid_amount total_amount =
     (if paid_amount \<ge> total_amount then ''paid''
      else if paid_amount > 0 then ''partial'' else ''draft'')"

definition del_receipt_items :: "int \<Rightarrow> db \<Rightarrow> db" where
  "del_receipt_items receiptId d =
     d\<lparr>receipt_items := filter (\<lambda>i. ri_receipt_id i \<noteq> receiptId) (receipt_items d)\<rparr>"

definition del_audit_of_payment :: "int \<Rightarrow> db \<Rightarrow> db" where
  "del_audit_of_payment paymentId d =
     d\<lparr>payment_audit_log :=
         filter (\<lambda>a. al_payment_id a \<noteq> Some paymentId) (payment_audit_log d)\<rparr>"

definition del_allocations_of_payment :: "int \<Rightarrow> db \<Rightarrow> db" where
  "del_allocations_of_payment paymentId d =
     d\<lparr>payment_allocations :=
         filter (\<lambda>a. pa_payment_id a \<noteq> paymentId) (payment_allocations d)\<rparr>"

definition del_payment :: "int \<Rightarrow> db \<Rightarrow> db" where
  "del_payment paymentId d =
     d\<lparr>payments := filter (\<lambda>p. pay_id p \<noteq> paymentId) (payments d)\<rparr>"

definition update_invoice :: "int \<Rightarrow> string \<Rightarrow> rat \<Rightarrow> rat \<Rightarrow> db \<Rightarrow> db" where
  "update_invoice invoiceId new_status paid_amount balance_due d =
     d\<lparr>invoices :=
         map (\<lambda>r. if inv_id r = invoiceId
                  then r\<lparr>inv_status := new_status, inv_paid_amount := paid_amount,
                         inv_balance_due := balance_due\<rparr>
                  else r)
             (invoices d)\<rparr>"

definition del_receipt :: "int \<Rightarrow> db \<Rightarrow> db" where
  "del_receipt receiptId d =
     d\<lparr>receipts := filter (\<lambda>r. rc_id r \<noteq> receiptId) (receipts d)\<rparr>"

text \<open>Steps 3 to 5, lines 2578--2619, run only for a truthy payment id.\<close>

definition reverse_payment :: "(stmt \<Rightarrow> bool) \<Rightarrow> int option \<Rightarrow> db \<Rightarrow> error + db" where
  "reverse_payment faults paymentId d =
     (if falsy_id paymentId then Inr d
      else
        bind_err (query faults DelAuditLog (FailedDelete DelAuditLog)
                    (del_audit_of_payment (int_of paymentId)) d) (\<lambda>d1.
        bind_err (query faults DelAllocations (FailedDelete DelAllocations)
                    (del_allocations_of_payment (int_of paymentId)) d1) (\<lambda>d2.
        query faults DelPayment (FailedDelete DelPayment)
          (del_payment (int_of paymentId)) d2)))"

text \<open>
  Step 6, lines 2621--2686, runs only for a truthy invoice id; an invoice that is not
  found is skipped with a warning.
\<close>

definition recalculate_invoice :: "(stmt \<Rightarrow> bool) \<Rightarrow> int option \<Rightarrow> db \<Rightarrow> error + db" where
  "recalculate_invoice faults invoiceId d =
     (if falsy_id invoiceId then Inr d
      else if faults SelInvoiceCheck then Inl FailedFetchInvoice
      else
        (case find_invoice d (int_of invoiceId) of
           None \<Rightarrow> Inr d
         | Some invoice \<Rightarrow>
             (if faults SelPaidSum then Inl FailedCalculatePaidAmount
              else
                (let total_amount = inv_total_amount invoice;
                     paid_amount = allocated_sum d (int_of invoiceId);
                     balance_due = recomputed_balance_due total_amount paid_amount;
                     new_status = recomputed_status paid_amount total_amount
                 in query faults UpdInvoice FailedUpdateInvoiceStatus
                      (update_invoice (int_of invoiceId) new_status paid_amount balance_due) d))))"

text \<open>The body of the \<^verbatim>\<open>try\<close> block from step 1 up to the commit, lines 2551--2695.\<close>

definition delete_receipt_body ::
  "(stmt \<Rightarrow> bool) \<Rightarrow> int \<Rightarrow> db \<Rightarrow> error + (delete_receipt_response \<times> db)" where
  "delete_receipt_body faults receiptId d =
     (if faults SelReceipt then Inl DatabaseQueryError
      else
        (case find_receipt d receiptId of
           None \<Rightarrow> Inl ReceiptNotFound
         | Some receipt \<Rightarrow>
             bind_err (query faults DelReceiptItems (FailedDelete DelReceiptItems)
                         (del_receipt_items receiptId) d) (\<lambda>d1.
             bind_err (reverse_payment faults (rc_payment_id receipt) d1) (\<lambda>d2.
             bind_err (recalculate_invoice faults (rc_invoice_id receipt) d2) (\<lambda>d3.
             bind_err (query faults DelReceipt (FailedDelete DelReceipt)
                         (del_receipt receiptId) d3) (\<lambda>d4.
             Inr (\<lparr>drr_receipt_id = receiptId,
                   drr_receipt_number = rc_receipt_number receipt,
                   drr_invoice_id = rc_invoice_id receipt,
                   drr_payment_id = rc_payment_id receipt,
                   drr_amount_reversed = rc_total_amount receipt\<rparr>, d4)))))))"

text \<open>
  The whole action, lines 2486--2762. Every exception, also one raised before the
  transaction starts, reaches the same handler, which rolls back and reports
  \<^verbatim>\<open>'Receipt deletion failed: ' . $e->getMessage()\<close>.
\<close>

definition delete_receipt_with_cascade ::
  "(stmt \<Rightarrow> bool) \<Rightarrow> int option \<Rightarrow> db \<Rightarrow> (error + delete_receipt_response) \<times> db" where
  "delete_receipt_with_cascade faults receipt_id d =
     (if falsy_id receipt_id then (Inl (ReceiptDeletionFailed MissingReceiptId), d)
      else if int_of receipt_id \<le> 0 then (Inl (ReceiptDeletionFailed InvalidReceiptId), d)
      else if faults BeginTransaction then (Inl (ReceiptDeletionFailed FailedStartTransaction), d)
      else
        (case delete_receipt_body faults (int_of receipt_id) d of
           Inl e \<Rightarrow> (Inl (ReceiptDeletionFailed e), d)
         | Inr (resp, d') \<Rightarrow>
             (if faults Commit then (Inl (ReceiptDeletionFailed FailedCommit), d)
              else (Inr resp, d'))))"

subsection \<open>Concrete stores and requests\<close>

text \<open>The inputs at which the theorems below are evaluated.\<close>

definition no_faults :: "stmt \<Rightarrow> bool" where
  "no_faults s = False"

definition env0 :: env where
  "env0 = \<lparr>current_year = 2026, today = ''2026-11-03'', auth_id = Some 7,
           fresh_receipt_number = ''REC-123456ABCDEF''\<rparr>"

definition db0 :: db where
  "db0 = \<lparr>document_sequences = [], invoices = [], invoice_items = [], payments = [],
          payment_allocations = [], receipts = [], receipt_items = [],
          payment_audit_log = [], credit_note_allocations = [], stock_movements = [],
          next_invoice_id = 1, next_payment_id = 1, next_allocation_id = 1,
          next_receipt_id = 1, journal = []\<rparr>"

text \<open>
  The number a string of decimal digits denotes. It is not part of the program: it is
  the reading against which the output of \<open>show_nat\<close> and \<open>pad4\<close> is checked.
\<close>

definition decimal_value :: "string \<Rightarrow> nat" where
  "decimal_value s = foldl (\<lambda>a c. 10 * a + (of_char c - 48)) 0 s"

text \<open>
  \<open>only_sequences_changed d d'\<close>: the stores \<open>d\<close> and \<open>d'\<close> differ at most in the
  counter table and in the journal. It is the footprint of the sequence allocator.
\<close>

definition only_sequences_changed :: "db \<Rightarrow> db \<Rightarrow> bool" where
  "only_sequences_changed d d' \<longleftrightarrow>
     d' = d\<lparr>document_sequences := document_sequences d', journal := journal d'\<rparr>"

text \<open>
  One line of 2 units at 100 with 32 of tax (line total 232), and the requests of
  company 1 for customer 5 with a given amount and given items, no number supplied.
\<close>

definition item1 :: item_input where
  "item1 = \<lparr>it_description = Some ''Cement 50kg'', it_quantity = Some 2,
            it_unit_price = Some 100, it_tax_amount = Some 32, it_tax_percentage = Some 16\<rparr>"

definition request_with :: "rat option \<Rightarrow> item_input list \<Rightarrow> create_request" where
  "request_with amount its =
     \<lparr>rq_company_id = Some 1, rq_customer_id = Some 5,
      rq_payment = \<lparr>p_amount = amount, p_payment_date = None, p_payment_method = None,
                    p_payment_number = None, p_reference_number = None\<rparr>,
      rq_invoice = \<lparr>i_invoice_number = None, i_total_amount = None\<rparr>,
      rq_items = its\<rparr>"

text \<open>The receipt-items insert of the first item fails; every other statement succeeds.\<close>

definition fail_first_receipt_item :: "stmt \<Rightarrow> bool" where
  "fail_first_receipt_item s \<longleftrightarrow> s = InsReceiptItem 0"

text \<open>
  A store with one invoice of total 1000, paid in full by two payments of 600 and 400,
  each with its allocation, its receipt, one receipt item and one audit entry.
\<close>

definition invoice_1000 :: invoice_row where
  "invoice_1000 =
     \<lparr>inv_id = 1, inv_company_id = 1, inv_customer_id = 5,
      inv_invoice_number = ''INV-2026-0001'', inv_invoice_date = ''2026-10-01'',
      inv_due_date = ''2026-10-31'', inv_status = ''paid'', inv_subtotal = 1000,
      inv_tax_amount = 0, inv_total_amount = 1000, inv_paid_amount = 1000,
      inv_balance_due = 0, inv_notes = [], inv_created_by = Some 7\<rparr>"

definition receipt_600 :: receipt_row where
  "receipt_600 =
     \<lparr>rc_id = 1, rc_company_id = 1, rc_payment_id = Some 1, rc_invoice_id = Some 1,
      rc_receipt_number = ''REC-000001AAAAAA'', rc_receipt_date = ''2026-10-05'',
      rc_receipt_type = ''direct_receipt'', rc_total_amount = 600, rc_excess_amount = 0,
      rc_excess_handling = ''pending'', rc_notes = [], rc_created_by = Some 7\<rparr>"

definition receipt_400 :: receipt_row where
  "receipt_400 =
     \<lparr>rc_id = 2, rc_company_id = 1, rc_payment_id = Some 2, rc_invoice_id = Some 1,
      rc_receipt_number = ''REC-000002BBBBBB'', rc_receipt_date = ''2026-10-09'',
      rc_receipt_type = ''direct_receipt'', rc_total_amount = 400, rc_excess_amount = 0,
      rc_excess_handling = ''pending'', rc_notes = [], rc_created_by = Some 7\<rparr>"

definition db_two_receipts :: db where
  "db_two_receipts =
     \<lparr>document_sequences = [],
      invoices = [invoice_1000],
      invoice_items =
        [\<lparr>ii_invoice_id = 1, ii_description = ''Steel bars'', ii_quantity = 10,
          ii_unit_price = 100, ii_tax_percentage = 0, ii_tax_amount = 0,
          ii_line_total = 1000, ii_sort_order = 1\<rparr>],
      payments =
        [\<lparr>pay_id = 1, pay_company_id = 1, pay_invoice_id = Some 1,
          pay_payment_date = ''2026-10-05'', pay_payment_method = ''cash'', pay_amount = 600,
          pay_payment_number = ''PAY-2026-0001'', pay_reference_number = None,
          pay_created_by = Some 7\<rparr>,
         \<lparr>pay_id = 2, pay_company_id = 1, pay_invoice_id = Some 1,
          pay_payment_date = ''2026-10-09'', pay_payment_method = ''cash'', pay_amount = 400,
          pay_payment_number = ''PAY-2026-0002'', pay_reference_number = None,
          pay_created_by = Some 7\<rparr>],
      payment_allocations =
        [\<lparr>pa_id = 1, pa_payment_id = 1, pa_invoice_id = 1, pa_amount = 600\<rparr>,
         \<lparr>pa_id = 2, pa_payment_id = 2, pa_invoice_id = 1, pa_amount = 400\<rparr>],
      receipts = [receipt_600, receipt_400],
      receipt_items =
        [\<lparr>ri_receipt_id = 1, ri_description = ''Steel bars'', ri_quantity = 6,
          ri_unit_price = 100, ri_tax_percentage = 0, ri_tax_amount = 0,
          ri_line_total = 600, ri_sort_order = 1\<rparr>,
         \<lparr>ri_receipt_id = 2, ri_description = ''Steel bars'', ri_quantity = 4,
          ri_unit_price = 100, ri_tax_percentage = 0, ri_tax_amount = 0,
          ri_line_total = 400, ri_sort_order = 1\<rparr>],
      payment_audit_log =
        [\<lparr>al_payment_id = Some 1, al_invoice_id = Some 1\<rparr>,
         \<lparr>al_payment_id = Some 2, al_invoice_id = Some 1\<rparr>],
      credit_note_allocations = [], stock_movements = [],
      next_invoice_id = 2, next_payment_id = 3, next_allocation_id = 3,
      next_receipt_id = 3, journal = []\<rparr>"

text \<open>The read-back of the invoice counter fails; every other statement succeeds.\<close>

definition fail_invoice_seq_fetch :: "stmt \<Rightarrow> bool" where
  "fail_invoice_seq_fetch s \<longleftrightarrow> s = SeqFetch ''INV''"

subsection \<open>Sequence allocator: auxiliary facts\<close>

lemma seq_lookup_journal [simp]: "seq_lookup (d\<lparr>journal := j\<rparr>) ty yr = seq_lookup d ty yr"
  by (simp add: seq_lookup_def)

lemma filter_incr_same:
  "filter (seq_matches ty yr)
     (map (\<lambda>r. if seq_matches ty yr r then r\<lparr>sq_sequence_number := sq_sequence_number r + 1\<rparr> else r) rs)
   = map (\<lambda>r. r\<lparr>sq_sequence_number := sq_sequence_number r + 1\<rparr>) (filter (seq_matches ty yr) rs)"
  by (induction rs) (auto simp: seq_matches_def)

lemma filter_incr_other:
  "(ty', yr') \<noteq> (ty, yr) \<Longrightarrow>
   filter (seq_matches ty' yr')
     (map (\<lambda>r. if seq_matches ty yr r then r\<lparr>sq_sequence_number := sq_sequence_number r + 1\<rparr> else r) rs)
   = filter (seq_matches ty' yr') rs"
  by (induction rs) (auto simp: seq_matches_def)

lemma seq_lookup_increment_same:
  "seq_lookup (seq_increment ty yr d) ty yr = map_option Suc (seq_lookup d ty yr)"
  by (simp add: seq_lookup_def seq_increment_def filter_incr_same split: list.splits)

lemma seq_lookup_increment_other:
  "(ty', yr') \<noteq> (ty, yr) \<Longrightarrow> seq_lookup (seq_increment ty yr d) ty' yr' = seq_lookup d ty' yr'"
  by (simp add: seq_lookup_def seq_increment_def filter_incr_other)

lemma seq_lookup_insert_same:
  "seq_lookup d ty yr = None \<Longrightarrow> seq_lookup (seq_insert ty yr d) ty yr = Some 0"
  by (simp add: seq_lookup_def seq_insert_def seq_matches_def split: list.splits)

lemma seq_lookup_insert_other:
  "(ty', yr') \<noteq> (ty, yr) \<Longrightarrow> seq_lookup (seq_insert ty yr d) ty' yr' = seq_lookup d ty' yr'"
  by (auto simp add: seq_lookup_def seq_insert_def seq_matches_def split: list.splits)

lemma seq_increment_journal [simp]: "journal (seq_increment ty yr d) = journal d"
  by (simp add: seq_increment_def)

lemma seq_insert_journal [simp]: "journal (seq_insert ty yr d) = journal d"
  by (simp add: seq_insert_def)

lemma seq_increment_upd_journal [simp]:
  "seq_increment ty yr (d\<lparr>journal := j\<rparr>) = (seq_increment ty yr d)\<lparr>journal := j\<rparr>"
  by (simp add: seq_increment_def)

lemma next_sequence_absent:
  assumes "\<not> faults (SeqInsert ty)" "\<not> faults (SeqUpdate ty)" "\<not> faults (SeqFetch ty)"
    and "seq_lookup d ty yr = None"
  shows "next_sequence faults ty yr d =
    (Inr 1, (seq_increment ty yr (seq_insert ty yr d))\<lparr>journal := journal d @ [SeqInsert ty, SeqUpdate ty]\<rparr>)"
  using assms
  by (simp add: next_sequence_def query_def seq_lookup_increment_same seq_lookup_insert_same)

lemma next_sequence_present:
  assumes "\<not> faults (SeqCheck ty)" "\<not> faults (SeqUpdate ty)" "\<not> faults (SeqFetch ty)"
    and "seq_lookup d ty yr = Some k"
  shows "next_sequence faults ty yr d =
    (Inr (k + 1), (seq_increment ty yr d)\<lparr>journal := journal d @ [SeqUpdate ty]\<rparr>)"
  using assms
  by (simp add: next_sequence_def query_def seq_lookup_increment_same)

text \<open>Whatever happens, the allocator touches the counter table and the journal only.\<close>

lemma next_sequence_frame:
  "next_sequence faults ty yr d = (r, d') \<Longrightarrow>
   d' = d\<lparr>document_sequences := document_sequences d', journal := journal d'\<rparr>"
  by (auto simp: next_sequence_def query_def seq_insert_def seq_increment_def
      split: if_splits sum.splits option.splits)

lemma getNextDocumentNumberInternal_frame:
  "getNextDocumentNumberInternal ev faults ty year d = (r, d') \<Longrightarrow>
   d' = d\<lparr>document_sequences := document_sequences d', journal := journal d'\<rparr>"
  by (auto simp: getNextDocumentNumberInternal_def
      split: if_splits sum.splits prod.splits dest: next_sequence_frame)





lemmas format_eval =
  format_document_number_def show_int_def pad4_def show_nat.simps digit_char_def
  numeral_2_eq_2 numeral_3_eq_3


subsection \<open>Number formatting: auxiliary facts\<close>

lemma of_char_digit_char: "d < 10 \<Longrightarrow> of_char (digit_char d) = (48 + d :: nat)"
proof -
  assume "d < 10"
  then have "d = 0 \<or> d = 1 \<or> d = 2 \<or> d = 3 \<or> d = 4 \<or> d = 5 \<or> d = 6 \<or> d = 7 \<or> d = 8 \<or> d = 9"
    by arith
  then show ?thesis
    by (auto simp: digit_char_def)
qed

lemma decimal_value_snoc:
  "decimal_value (s @ [c]) = 10 * decimal_value s + (of_char c - 48)"
  by (simp add: decimal_value_def)

lemma decimal_value_show_nat: "decimal_value (show_nat n) = n"
proof (induction n rule: show_nat.induct)
  case (1 n)
  show ?case
  proof (cases "n < 10")
    case True
    then show ?thesis
      by (simp add: show_nat.simps[of n] decimal_value_def of_char_digit_char)
  next
    case False
    then have "decimal_value (show_nat (n div 10)) = n div 10" using 1 by simp
    then show ?thesis using False
      by (simp add: show_nat.simps[of n] decimal_value_snoc of_char_digit_char)
  qed
qed

lemma decimal_value_zeros: "foldl (\<lambda>a c. 10 * a + (of_char c - 48)) 0 (replicate k CHR ''0'') = (0::nat)"
  by (induction k) simp_all

lemma decimal_value_pad4: "decimal_value (pad4 n) = n"
  using decimal_value_show_nat[of n]
  by (simp add: pad4_def decimal_value_def decimal_value_zeros)



lemma resolve_year_cases:
  "resolve_year ev year = Inr yr \<longleftrightarrow>
     (case year of None \<Rightarrow> yr = current_year ev
      | Some y \<Rightarrow> if y = 0 then yr = current_year ev
                  else 2000 \<le> y \<and> y \<le> current_year ev + 10 \<and> yr = y)"
  by (auto simp: resolve_year_def split: option.splits)

subsection \<open>Statements and their footprint: auxiliary facts\<close>

lemma bind_err_Inr: "bind_err m f = Inr y \<longleftrightarrow> (\<exists>x. m = Inr x \<and> f x = Inr y)"
  by (cases m) (simp_all add: bind_err_def)

lemma bind_err_Inl: "bind_err m f = Inl e \<longleftrightarrow> m = Inl e \<or> (\<exists>x. m = Inr x \<and> f x = Inl e)"
  by (cases m) (simp_all add: bind_err_def)

lemma query_Inr:
  "query faults s e f d = Inr d' \<longleftrightarrow> \<not> faults s \<and> d' = (f d)\<lparr>journal := journal (f d) @ [s]\<rparr>"
  by (auto simp: query_def)

lemma only_sequences_changed_refl: "only_sequences_changed d d"
  by (simp add: only_sequences_changed_def)

lemma only_sequences_changed_trans:
  "only_sequences_changed d d1 \<Longrightarrow> only_sequences_changed d1 d2 \<Longrightarrow> only_sequences_changed d d2"
  unfolding only_sequences_changed_def
proof -
  assume a: "d1 = d\<lparr>document_sequences := document_sequences d1, journal := journal d1\<rparr>"
     and b: "d2 = d1\<lparr>document_sequences := document_sequences d2, journal := journal d2\<rparr>"
  note b
  also have "d1\<lparr>document_sequences := document_sequences d2, journal := journal d2\<rparr> =
      (d\<lparr>document_sequences := document_sequences d1, journal := journal d1\<rparr>)
        \<lparr>document_sequences := document_sequences d2, journal := journal d2\<rparr>"
    by (rule arg_cong[where f = "\<lambda>x. x\<lparr>document_sequences := document_sequences d2,
        journal := journal d2\<rparr>", OF a])
  also have "\<dots> = d\<lparr>document_sequences := document_sequences d2, journal := journal d2\<rparr>"
    by simp
  finally show "d2 = d\<lparr>document_sequences := document_sequences d2, journal := journal d2\<rparr>" .
qed

lemma only_sequences_changed_fields:
  assumes "only_sequences_changed d d'"
  shows "invoices d' = invoices d" "invoice_items d' = invoice_items d"
    "payments d' = payments d" "payment_allocations d' = payment_allocations d"
    "receipts d' = receipts d" "receipt_items d' = receipt_items d"
    "payment_audit_log d' = payment_audit_log d"
    "credit_note_allocations d' = credit_note_allocations d"
    "stock_movements d' = stock_movements d"
    "next_invoice_id d' = next_invoice_id d" "next_payment_id d' = next_payment_id d"
    "next_allocation_id d' = next_allocation_id d" "next_receipt_id d' = next_receipt_id d"
proof -
  let ?e = "d\<lparr>document_sequences := document_sequences d', journal := journal d'\<rparr>"
  have e: "d' = ?e" using assms by (simp add: only_sequences_changed_def)
  have "invoices ?e = invoices d" by simp
  then show "invoices d' = invoices d" using e by metis
  have "invoice_items ?e = invoice_items d" by simp
  then show "invoice_items d' = invoice_items d" using e by metis
  have "payments ?e = payments d" by simp
  then show "payments d' = payments d" using e by metis
  have "payment_allocations ?e = payment_allocations d" by simp
  then show "payment_allocations d' = payment_allocations d" using e by metis
  have "receipts ?e = receipts d" by simp
  then show "receipts d' = receipts d" using e by metis
  have "receipt_items ?e = receipt_items d" by simp
  then show "receipt_items d' = receipt_items d" using e by metis
  have "payment_audit_log ?e = payment_audit_log d" by simp
  then show "payment_audit_log d' = payment_audit_log d" using e by metis
  have "credit_note_allocations ?e = credit_note_allocations d" by simp
  then show "credit_note_allocations d' = credit_note_allocations d" using e by metis
  have "stock_movements ?e = stock_movements d" by simp
  then show "stock_movements d' = stock_movements d" using e by metis
  have "next_invoice_id ?e = next_invoice_id d" by simp
  then show "next_invoice_id d' = next_invoice_id d" using e by metis
  have "next_payment_id ?e = next_payment_id d" by simp
  then show "next_payment_id d' = next_payment_id d" using e by metis
  have "next_allocation_id ?e = next_allocation_id d" by simp
  then show "next_allocation_id d' = next_allocation_id d" using e by metis
  have "next_receipt_id ?e = next_receipt_id d" by simp
  then show "next_receipt_id d' = next_receipt_id d" using e by metis
qed

lemma getNextDocumentNumberInternal_footprint:
  "getNextDocumentNumberInternal ev faults ty year d = (r, d') \<Longrightarrow> only_sequences_changed d d'"
  unfolding only_sequences_changed_def by (rule getNextDocumentNumberInternal_frame)

lemma draw_number_footprint:
  "draw_number ev faults ty supplied d = (r, d') \<Longrightarrow> only_sequences_changed d d'"
  by (auto simp: draw_number_def only_sequences_changed_refl
      dest: getNextDocumentNumberInternal_footprint split: if_splits)

subsection \<open>Creation: what a successful body has written\<close>

lemma insert_invoice_items_Inr:
  "insert_invoice_items faults invoiceId idx its d = Inr d' \<Longrightarrow>
   d' = d\<lparr>invoice_items := invoice_items d @
            map (\<lambda>(i, it). new_invoice_item_row invoiceId i it) (enumerate idx its),
          journal := journal d @ map (\<lambda>(i, it). InsInvoiceItem i) (enumerate idx its)\<rparr>"
proof (induction its arbitrary: idx d)
  case Nil
  then show ?case by simp
next
  case (Cons it its)
  from Cons.prems obtain d1 where
    q: "query faults (InsInvoiceItem idx) FailedCreateInvoiceItem
          (add_invoice_item (new_invoice_item_row invoiceId idx it)) d = Inr d1"
    and r: "insert_invoice_items faults invoiceId (idx + 1) its d1 = Inr d'"
    by (auto simp: bind_err_Inr)
  have d1: "d1 = d\<lparr>invoice_items := invoice_items d @ [new_invoice_item_row invoiceId idx it],
                   journal := journal d @ [InsInvoiceItem idx]\<rparr>"
    using q by (simp add: query_Inr add_invoice_item_def)
  show ?case
    using Cons.IH[OF r] by (simp add: d1)
qed

lemma insert_receipt_items_Inr:
  "insert_receipt_items faults receiptId idx its d = Inr d' \<Longrightarrow>
   d' = d\<lparr>receipt_items := receipt_items d @
            map (\<lambda>(i, it). new_receipt_item_row receiptId i it) (enumerate idx its),
          journal := journal d @ map (\<lambda>(i, it). InsReceiptItem i) (enumerate idx its)\<rparr>"
proof (induction its arbitrary: idx d)
  case Nil
  then show ?case by simp
next
  case (Cons it its)
  from Cons.prems obtain d1 where
    q: "query faults (InsReceiptItem idx) FailedCreateReceiptItem
          (add_receipt_item (new_receipt_item_row receiptId idx it)) d = Inr d1"
    and r: "insert_receipt_items faults receiptId (idx + 1) its d1 = Inr d'"
    by (auto simp: bind_err_Inr)
  have d1: "d1 = d\<lparr>receipt_items := receipt_items d @ [new_receipt_item_row receiptId idx it],
                   journal := journal d @ [InsReceiptItem idx]\<rparr>"
    using q by (simp add: query_Inr add_receipt_item_def)
  show ?case
    using Cons.IH[OF r] by (simp add: d1)
qed

lemma insert_receipt_items_first_fault:
  "faults (InsReceiptItem idx) \<Longrightarrow> its \<noteq> [] \<Longrightarrow>
   insert_receipt_items faults receiptId idx its d = Inl FailedCreateReceiptItem"
  by (cases its) (simp_all add: bind_err_def query_def)

text \<open>The steps of a successful body, one by one.\<close>

lemma create_body_steps:
  assumes "create_body ev faults rq invoiceNumber paymentNumber d = Inr (ids, d')"
  obtains d1 d2 d3 d4 d5 where
    "query faults InsInvoice FailedCreateInvoice
       (insert_invoice (new_invoice_row ev rq invoiceNumber (next_invoice_id d))) d = Inr d1"
    "next_invoice_id d \<noteq> 0"
    "insert_invoice_items faults (next_invoice_id d) 0 (rq_items rq) d1 = Inr d2"
    "query faults InsPayment FailedCreatePayment
       (insert_payment (new_payment_row ev rq paymentNumber (next_invoice_id d) (next_payment_id d2))) d2
       = Inr d3"
    "next_payment_id d2 \<noteq> 0"
    "query faults InsAllocation FailedCreateAllocation
       (insert_allocation (new_allocation_row rq (next_invoice_id d) (next_payment_id d2)
          (next_allocation_id d3))) d3 = Inr d4"
    "query faults InsReceipt FailedCreateReceipt
       (insert_receipt (new_receipt_row ev rq (next_invoice_id d) (next_payment_id d2)
          (next_receipt_id d4))) d4 = Inr d5"
    "next_receipt_id d4 \<noteq> 0"
    "insert_receipt_items faults (next_receipt_id d4) 0 (rq_items rq) d5 = Inr d'"
    "ids = (next_invoice_id d, next_payment_id d2, next_allocation_id d3, next_receipt_id d4)"
proof -
  let ?iid = "next_invoice_id d"
  from assms obtain d1 where
    q1: "query faults InsInvoice FailedCreateInvoice
           (insert_invoice (new_invoice_row ev rq invoiceNumber ?iid)) d = Inr d1"
    and r1: "(if ?iid = 0 then Inl FailedGetInvoiceId else
      bind_err (insert_invoice_items faults ?iid 0 (rq_items rq) d1) (\<lambda>d2.
      let paymentId = next_payment_id d2 in
      bind_err (query faults InsPayment FailedCreatePayment
                  (insert_payment (new_payment_row ev rq paymentNumber ?iid paymentId)) d2) (\<lambda>d3.
      if paymentId = 0 then Inl FailedGetPaymentId else
      let allocationId = next_allocation_id d3 in
      bind_err (query faults InsAllocation FailedCreateAllocation
                  (insert_allocation (new_allocation_row rq ?iid paymentId allocationId)) d3) (\<lambda>d4.
      let receiptId = next_receipt_id d4 in
      bind_err (query faults InsReceipt FailedCreateReceipt
                  (insert_receipt (new_receipt_row ev rq ?iid paymentId receiptId)) d4) (\<lambda>d5.
      if receiptId = 0 then Inl FailedGetReceiptId else
      bind_err (insert_receipt_items faults receiptId 0 (rq_items rq) d5) (\<lambda>d6.
      Inr ((?iid, paymentId, allocationId, receiptId), d6))))))) = Inr (ids, d')"
    unfolding create_body_def Let_def by (subst (asm) bind_err_Inr) blast
  have n1: "?iid \<noteq> 0" using r1 by (auto split: if_splits)
  from r1 n1 obtain d2 where
    q2: "insert_invoice_items faults ?iid 0 (rq_items rq) d1 = Inr d2"
    and r2: "(let paymentId = next_payment_id d2 in
      bind_err (query faults InsPayment FailedCreatePayment
                  (insert_payment (new_payment_row ev rq paymentNumber ?iid paymentId)) d2) (\<lambda>d3.
      if paymentId = 0 then Inl FailedGetPaymentId else
      let allocationId = next_allocation_id d3 in
      bind_err (query faults InsAllocation FailedCreateAllocation
                  (insert_allocation (new_allocation_row rq ?iid paymentId allocationId)) d3) (\<lambda>d4.
      let receiptId = next_receipt_id d4 in
      bind_err (query faults InsReceipt FailedCreateReceipt
                  (insert_receipt (new_receipt_row ev rq ?iid paymentId receiptId)) d4) (\<lambda>d5.
      if receiptId = 0 then Inl FailedGetReceiptId else
      bind_err (insert_receipt_items faults receiptId 0 (rq_items rq) d5) (\<lambda>d6.
      Inr ((?iid, paymentId, allocationId, receiptId), d6)))))) = Inr (ids, d')"
    by (simp only: if_False) (subst (asm) bind_err_Inr, blast)
  let ?pid = "next_payment_id d2"
  from r2 obtain d3 where
    q3: "query faults InsPayment FailedCreatePayment
           (insert_payment (new_payment_row ev rq paymentNumber ?iid ?pid)) d2 = Inr d3"
    and r3: "(if ?pid = 0 then Inl FailedGetPaymentId else
      let allocationId = next_allocation_id d3 in
      bind_err (query faults InsAllocation FailedCreateAllocation
                  (insert_allocation (new_allocation_row rq ?iid ?pid allocationId)) d3) (\<lambda>d4.
      let receiptId = next_receipt_id d4 in
      bind_err (query faults InsReceipt FailedCreateReceipt
                  (insert_receipt (new_receipt_row ev rq ?iid ?pid receiptId)) d4) (\<lambda>d5.
      if receiptId = 0 then Inl FailedGetReceiptId else
      bind_err (insert_receipt_items faults receiptId 0 (rq_items rq) d5) (\<lambda>d6.
      Inr ((?iid, ?pid, allocationId, receiptId), d6))))) = Inr (ids, d')"
    unfolding Let_def by (subst (asm) bind_err_Inr) blast
  have n2: "?pid \<noteq> 0" using r3 by (auto split: if_splits)
  let ?aid = "next_allocation_id d3"
  from r3 n2 obtain d4 where
    q4: "query faults InsAllocation FailedCreateAllocation
           (insert_allocation (new_allocation_row rq ?iid ?pid ?aid)) d3 = Inr d4"
    and r4: "bind_err (query faults InsReceipt FailedCreateReceipt
                  (insert_receipt (new_receipt_row ev rq ?iid ?pid (next_receipt_id d4))) d4) (\<lambda>d5.
      if next_receipt_id d4 = 0 then Inl FailedGetReceiptId else
      bind_err (insert_receipt_items faults (next_receipt_id d4) 0 (rq_items rq) d5) (\<lambda>d6.
      Inr ((?iid, ?pid, ?aid, next_receipt_id d4), d6))) = Inr (ids, d')"
    unfolding Let_def by (simp only: if_False) (subst (asm) bind_err_Inr, blast)
  let ?rid = "next_receipt_id d4"
  from r4 obtain d5 where
    q5: "query faults InsReceipt FailedCreateReceipt
           (insert_receipt (new_receipt_row ev rq ?iid ?pid ?rid)) d4 = Inr d5"
    and r5: "(if ?rid = 0 then Inl FailedGetReceiptId else
      bind_err (insert_receipt_items faults ?rid 0 (rq_items rq) d5) (\<lambda>d6.
      Inr ((?iid, ?pid, ?aid, ?rid), d6))) = Inr (ids, d')"
    by (subst (asm) bind_err_Inr) blast
  have n3: "?rid \<noteq> 0" using r5 by (auto split: if_splits)
  from r5 n3 have
    q6: "insert_receipt_items faults ?rid 0 (rq_items rq) d5 = Inr d'"
    and i: "ids = (?iid, ?pid, ?aid, ?rid)"
    by (auto simp: bind_err_Inr)
  show thesis
    by (rule that[OF q1 n1 q2 q3 n2 q4 q5 n3 q6 i])
qed

lemma create_body_written:
  assumes "create_body ev faults rq invoiceNumber paymentNumber d = Inr (ids, d')"
  shows "ids = (next_invoice_id d, next_payment_id d, next_allocation_id d, next_receipt_id d)"
    and "invoices d' = invoices d @ [new_invoice_row ev rq invoiceNumber (next_invoice_id d)]"
    and "invoice_items d' = invoice_items d @
           map (\<lambda>(i, it). new_invoice_item_row (next_invoice_id d) i it) (enumerate 0 (rq_items rq))"
    and "payments d' = payments d @
           [new_payment_row ev rq paymentNumber (next_invoice_id d) (next_payment_id d)]"
    and "payment_allocations d' = payment_allocations d @
           [new_allocation_row rq (next_invoice_id d) (next_payment_id d) (next_allocation_id d)]"
    and "receipts d' = receipts d @
           [new_receipt_row ev rq (next_invoice_id d) (next_payment_id d) (next_receipt_id d)]"
    and "receipt_items d' = receipt_items d @
           map (\<lambda>(i, it). new_receipt_item_row (next_receipt_id d) i it) (enumerate 0 (rq_items rq))"
    and "document_sequences d' = document_sequences d"
    and "journal d' = journal d @ [InsInvoice] @
           map (\<lambda>(i, it). InsInvoiceItem i) (enumerate 0 (rq_items rq)) @
           [InsPayment, InsAllocation, InsReceipt] @
           map (\<lambda>(i, it). InsReceiptItem i) (enumerate 0 (rq_items rq))"
proof -
  from assms obtain d1 d2 d3 d4 d5 where
    q1: "query faults InsInvoice FailedCreateInvoice
       (insert_invoice (new_invoice_row ev rq invoiceNumber (next_invoice_id d))) d = Inr d1"
    and q2: "insert_invoice_items faults (next_invoice_id d) 0 (rq_items rq) d1 = Inr d2"
    and q3: "query faults InsPayment FailedCreatePayment
       (insert_payment (new_payment_row ev rq paymentNumber (next_invoice_id d) (next_payment_id d2))) d2
       = Inr d3"
    and q4: "query faults InsAllocation FailedCreateAllocation
       (insert_allocation (new_allocation_row rq (next_invoice_id d) (next_payment_id d2)
          (next_allocation_id d3))) d3 = Inr d4"
    and q5: "query faults InsReceipt FailedCreateReceipt
       (insert_receipt (new_receipt_row ev rq (next_invoice_id d) (next_payment_id d2)
          (next_receipt_id d4))) d4 = Inr d5"
    and q6: "insert_receipt_items faults (next_receipt_id d4) 0 (rq_items rq) d5 = Inr d'"
    and i: "ids = (next_invoice_id d, next_payment_id d2, next_allocation_id d3, next_receipt_id d4)"
    by (rule create_body_steps)
  note e1 = q1[unfolded query_Inr, THEN conjunct2]
  note e2 = insert_invoice_items_Inr[OF q2]
  note e3 = q3[unfolded query_Inr, THEN conjunct2]
  note e4 = q4[unfolded query_Inr, THEN conjunct2]
  note e5 = q5[unfolded query_Inr, THEN conjunct2]
  note e6 = insert_receipt_items_Inr[OF q6]
  have p: "next_payment_id d2 = next_payment_id d"
    by (simp add: e2 e1 insert_invoice_def)
  have a: "next_allocation_id d3 = next_allocation_id d"
    by (simp add: e3 e2 e1 insert_invoice_def insert_payment_def)
  have r: "next_receipt_id d4 = next_receipt_id d"
    by (simp add: e4 e3 e2 e1 insert_invoice_def insert_payment_def insert_allocation_def)
  show "ids = (next_invoice_id d, next_payment_id d, next_allocation_id d, next_receipt_id d)"
    using i p a r by simp
  have i1: "invoices d1 = invoices d @ [new_invoice_row ev rq invoiceNumber (next_invoice_id d)]"
    by (simp add: e1 insert_invoice_def)
  have "invoices d' = invoices d1"
    by (simp add: e6 e5 e4 e3 e2 insert_payment_def insert_allocation_def insert_receipt_def)
  then show "invoices d' = invoices d @ [new_invoice_row ev rq invoiceNumber (next_invoice_id d)]"
    using i1 by simp
  have i2: "invoice_items d2 = invoice_items d @
           map (\<lambda>(i, it). new_invoice_item_row (next_invoice_id d) i it) (enumerate 0 (rq_items rq))"
    by (simp add: e2 e1 insert_invoice_def)
  have "invoice_items d' = invoice_items d2"
    by (simp add: e6 e5 e4 e3 insert_payment_def insert_allocation_def insert_receipt_def)
  then show "invoice_items d' = invoice_items d @
           map (\<lambda>(i, it). new_invoice_item_row (next_invoice_id d) i it) (enumerate 0 (rq_items rq))"
    using i2 by simp
  have i3: "payments d3 = payments d @
           [new_payment_row ev rq paymentNumber (next_invoice_id d) (next_payment_id d)]"
    by (simp add: e3 p) (simp add: e2 e1 insert_invoice_def insert_payment_def)
  have "payments d' = payments d3"
    by (simp add: e6 e5 e4 insert_allocation_def insert_receipt_def)
  then show "payments d' = payments d @
           [new_payment_row ev rq paymentNumber (next_invoice_id d) (next_payment_id d)]"
    using i3 by simp
  have i4: "payment_allocations d4 = payment_allocations d @
           [new_allocation_row rq (next_invoice_id d) (next_payment_id d) (next_allocation_id d)]"
    by (simp add: e4 p a)
       (simp add: e3 e2 e1 insert_invoice_def insert_payment_def insert_allocation_def)
  have "payment_allocations d' = payment_allocations d4"
    by (simp add: e6 e5 insert_receipt_def)
  then show "payment_allocations d' = payment_allocations d @
           [new_allocation_row rq (next_invoice_id d) (next_payment_id d) (next_allocation_id d)]"
    using i4 by simp
  have i5: "receipts d5 = receipts d @
           [new_receipt_row ev rq (next_invoice_id d) (next_payment_id d) (next_receipt_id d)]"
    by (simp add: e5 p r)
       (simp add: e4 e3 e2 e1 insert_invoice_def insert_payment_def insert_allocation_def
          insert_receipt_def)
  have "receipts d' = receipts d5"
    by (simp add: e6)
  then show "receipts d' = receipts d @
           [new_receipt_row ev rq (next_invoice_id d) (next_payment_id d) (next_receipt_id d)]"
    using i5 by simp
  have i6: "receipt_items d5 = receipt_items d"
    by (simp add: e5 e4 e3 e2 e1 insert_invoice_def insert_payment_def insert_allocation_def
          insert_receipt_def)
  show "receipt_items d' = receipt_items d @
           map (\<lambda>(i, it). new_receipt_item_row (next_receipt_id d) i it) (enumerate 0 (rq_items rq))"
    by (simp add: e6 r i6)
  show "document_sequences d' = document_sequences d"
    by (simp add: e6 e5 e4 e3 e2 e1 insert_invoice_def insert_payment_def insert_allocation_def
          insert_receipt_def)
  have j1: "journal d1 = journal d @ [InsInvoice]"
    by (simp add: e1 insert_invoice_def)
  have j2: "journal d2 = journal d1 @ map (\<lambda>(i, it). InsInvoiceItem i) (enumerate 0 (rq_items rq))"
    by (simp add: e2)
  have j3: "journal d3 = journal d2 @ [InsPayment]"
    by (simp add: e3 insert_payment_def)
  have j4: "journal d4 = journal d3 @ [InsAllocation]"
    by (simp add: e4 insert_allocation_def)
  have j5: "journal d5 = journal d4 @ [InsReceipt]"
    by (simp add: e5 insert_receipt_def)
  have j6: "journal d' = journal d5 @ map (\<lambda>(i, it). InsReceiptItem i) (enumerate 0 (rq_items rq))"
    by (simp add: e6)
  show "journal d' = journal d @ [InsInvoice] @
           map (\<lambda>(i, it). InsInvoiceItem i) (enumerate 0 (rq_items rq)) @
           [InsPayment, InsAllocation, InsReceipt] @
           map (\<lambda>(i, it). InsReceiptItem i) (enumerate 0 (rq_items rq))"
    by (simp add: j6 j5 j4 j3 j2 j1)
qed

text \<open>A successful action has drawn its numbers, then run the body, then committed.\<close>

lemma create_success:
  assumes "create_receipt_with_items_transaction ev faults rq d = (Inr r, d')"
  obtains invoiceNumber paymentNumber d2 ids where
    "only_sequences_changed d d2"
    "create_body ev faults rq invoiceNumber paymentNumber d2 = Inr (ids, d')"
    "r = create_response_of faults rq ids d'"
    "\<not> falsy_id (rq_company_id rq)" "\<not> falsy_id (rq_customer_id rq)"
    "p_amount (rq_payment rq) \<noteq> None"
proof -
  have v: "\<not> falsy_id (rq_company_id rq)" "\<not> falsy_id (rq_customer_id rq)"
    "p_amount (rq_payment rq) \<noteq> None"
    using assms by (auto simp: create_receipt_with_items_transaction_def split: if_splits)
  obtain r1 d1 where dr1: "draw_number ev faults ''INV'' (i_invoice_number (rq_invoice rq)) d = (r1, d1)"
    by (cases "draw_number ev faults ''INV'' (i_invoice_number (rq_invoice rq)) d") auto
  obtain r2 d2 where dr2: "draw_number ev faults ''PAY'' (p_payment_number (rq_payment rq)) d1 = (r2, d2)"
    by (cases "draw_number ev faults ''PAY'' (p_payment_number (rq_payment rq)) d1") auto
  from assms v dr1 obtain n1 where n1: "r1 = Inr n1"
    by (cases r1) (auto simp: create_receipt_with_items_transaction_def)
  from assms v dr1 dr2 n1 obtain n2 where n2: "r2 = Inr n2"
    by (cases r2) (auto simp: create_receipt_with_items_transaction_def)
  have fp: "only_sequences_changed d d2"
    using draw_number_footprint[OF dr1] draw_number_footprint[OF dr2]
    by (rule only_sequences_changed_trans)
  from assms v dr1 dr2 n1 n2 obtain ids where
    b: "create_body ev faults rq n1 n2 d2 = Inr (ids, d')"
    and c: "r = create_response_of faults rq ids d'"
    by (auto simp: create_receipt_with_items_transaction_def split: if_splits sum.splits)
  show thesis by (rule that[OF fp b c v])
qed

text \<open>A failed action leaves every table but the counter table as it was.\<close>

lemma create_failure_footprint:
  assumes "create_receipt_with_items_transaction ev faults rq d = (Inl e, d')"
  shows "only_sequences_changed d d'"
proof -
  obtain r1 d1 where dr1: "draw_number ev faults ''INV'' (i_invoice_number (rq_invoice rq)) d = (r1, d1)"
    by (cases "draw_number ev faults ''INV'' (i_invoice_number (rq_invoice rq)) d") auto
  obtain r2 d2 where dr2: "draw_number ev faults ''PAY'' (p_payment_number (rq_payment rq)) d1 = (r2, d2)"
    by (cases "draw_number ev faults ''PAY'' (p_payment_number (rq_payment rq)) d1") auto
  have f1: "only_sequences_changed d d1" by (rule draw_number_footprint[OF dr1])
  have f2: "only_sequences_changed d d2"
    using f1 draw_number_footprint[OF dr2] by (rule only_sequences_changed_trans)
  have "d' = d \<or> d' = d1 \<or> d' = d2"
    using assms dr1 dr2
    by (auto simp: create_receipt_with_items_transaction_def split: if_splits sum.splits prod.splits)
  then show ?thesis using f1 f2 only_sequences_changed_refl by auto
qed

lemma create_body_receipt_item_fault:
  assumes "rq_items rq \<noteq> []" "faults (InsReceiptItem 0)"
  shows "create_body ev faults rq invoiceNumber paymentNumber d \<noteq> Inr x"
proof
  assume "create_body ev faults rq invoiceNumber paymentNumber d = Inr x"
  then obtain ids d' where "create_body ev faults rq invoiceNumber paymentNumber d = Inr (ids, d')"
    by (cases x) auto
  then show False
  proof (rule create_body_steps)
    fix d4 d5
    assume "insert_receipt_items faults (next_receipt_id d4) 0 (rq_items rq) d5 = Inr d'"
    then show False
      using insert_receipt_items_first_fault[of faults 0 "rq_items rq" "next_receipt_id d4" d5]
        assms by simp
  qed
qed

subsection \<open>Creation: when it succeeds, and what it has written then\<close>

lemma insert_invoice_items_total:
  "(\<And>i. \<not> faults (InsInvoiceItem i)) \<Longrightarrow>
   \<exists>d'. insert_invoice_items faults invoiceId idx its d = Inr d'"
  by (induction its arbitrary: idx d) (simp_all add: bind_err_def query_def)

lemma insert_receipt_items_total:
  "(\<And>i. \<not> faults (InsReceiptItem i)) \<Longrightarrow>
   \<exists>d'. insert_receipt_items faults receiptId idx its d = Inr d'"
  by (induction its arbitrary: idx d) (simp_all add: bind_err_def query_def)

lemma create_body_total:
  assumes nf: "\<forall>s. \<not> faults s"
    and ids: "next_invoice_id d \<noteq> 0" "next_payment_id d \<noteq> 0" "next_receipt_id d \<noteq> 0"
  shows "\<exists>x. create_body ev faults rq invoiceNumber paymentNumber d = Inr x"
proof -
  let ?iid = "next_invoice_id d"
  obtain d1 where q1: "query faults InsInvoice FailedCreateInvoice
      (insert_invoice (new_invoice_row ev rq invoiceNumber ?iid)) d = Inr d1"
    using nf by (simp add: query_def)
  obtain d2 where q2: "insert_invoice_items faults ?iid 0 (rq_items rq) d1 = Inr d2"
    using insert_invoice_items_total[of faults] nf by blast
  let ?pid = "next_payment_id d2"
  obtain d3 where q3: "query faults InsPayment FailedCreatePayment
      (insert_payment (new_payment_row ev rq paymentNumber ?iid ?pid)) d2 = Inr d3"
    using nf by (simp add: query_def)
  let ?aid = "next_allocation_id d3"
  obtain d4 where q4: "query faults InsAllocation FailedCreateAllocation
      (insert_allocation (new_allocation_row rq ?iid ?pid ?aid)) d3 = Inr d4"
    using nf by (simp add: query_def)
  let ?rid = "next_receipt_id d4"
  obtain d5 where q5: "query faults InsReceipt FailedCreateReceipt
      (insert_receipt (new_receipt_row ev rq ?iid ?pid ?rid)) d4 = Inr d5"
    using nf by (simp add: query_def)
  obtain d6 where q6: "insert_receipt_items faults ?rid 0 (rq_items rq) d5 = Inr d6"
    using insert_receipt_items_total[of faults] nf by blast
  note e1 = q1[unfolded query_Inr, THEN conjunct2]
  note e2 = insert_invoice_items_Inr[OF q2]
  note e3 = q3[unfolded query_Inr, THEN conjunct2]
  note e4 = q4[unfolded query_Inr, THEN conjunct2]
  have p: "?pid \<noteq> 0"
    using ids by (simp add: e2 e1 insert_invoice_def)
  have r: "?rid \<noteq> 0"
    using ids
    by (simp add: e4 e3 e2 e1 insert_invoice_def insert_payment_def insert_allocation_def)
  have "create_body ev faults rq invoiceNumber paymentNumber d = Inr ((?iid, ?pid, ?aid, ?rid), d6)"
    unfolding create_body_def Let_def
    by (simp only: q1 q2 q3 q4 q5 q6 bind_err_def sum.case ids(1) p r if_False)
  then show ?thesis by blast
qed

lemma getNextDocumentNumberInternal_total:
  assumes "\<forall>s. \<not> faults s" "ty \<in> set valid_types_internal"
  shows "\<exists>n d'. getNextDocumentNumberInternal ev faults ty None d = (Inr n, d')"
proof (cases "seq_lookup d ty (current_year ev)")
  case None
  then show ?thesis
    using assms next_sequence_absent[of faults ty d "current_year ev"]
    by (simp add: getNextDocumentNumberInternal_def resolve_year_def)
next
  case (Some k)
  then show ?thesis
    using assms next_sequence_present[of faults ty d "current_year ev" k]
    by (simp add: getNextDocumentNumberInternal_def resolve_year_def)
qed

lemma draw_number_total:
  assumes "\<forall>s. \<not> faults s" "ty \<in> set valid_types_internal"
  shows "\<exists>n d'. draw_number ev faults ty supplied d = (Inr n, d')"
  using getNextDocumentNumberInternal_total[OF assms, where ev = ev and d = d]
  by (simp add: draw_number_def)

text \<open>
  With a company, a customer and an amount, on a store whose generated ids are not 0,
  the action succeeds when no statement fails.
\<close>

lemma create_total:
  assumes nf: "\<forall>s. \<not> faults s"
    and v: "\<not> falsy_id (rq_company_id rq)" "\<not> falsy_id (rq_customer_id rq)"
      "p_amount (rq_payment rq) \<noteq> None"
    and ids: "next_invoice_id d \<noteq> 0" "next_payment_id d \<noteq> 0" "next_receipt_id d \<noteq> 0"
  shows "\<exists>r d'. create_receipt_with_items_transaction ev faults rq d = (Inr r, d')"
proof -
  have m: "''INV'' \<in> set valid_types_internal" "''PAY'' \<in> set valid_types_internal"
    by (simp_all add: valid_types_internal_def)
  obtain n1 d1 where dr1: "draw_number ev faults ''INV'' (i_invoice_number (rq_invoice rq)) d = (Inr n1, d1)"
    using draw_number_total[OF nf m(1), where ev = ev and d = d
        and supplied = "i_invoice_number (rq_invoice rq)"] by blast
  obtain n2 d2 where dr2: "draw_number ev faults ''PAY'' (p_payment_number (rq_payment rq)) d1 = (Inr n2, d2)"
    using draw_number_total[OF nf m(2), where ev = ev and d = d1
        and supplied = "p_payment_number (rq_payment rq)"] by blast
  have fp: "only_sequences_changed d d2"
    using draw_number_footprint[OF dr1] draw_number_footprint[OF dr2]
    by (rule only_sequences_changed_trans)
  have "next_invoice_id d2 \<noteq> 0" "next_payment_id d2 \<noteq> 0" "next_receipt_id d2 \<noteq> 0"
    using ids by (simp_all add: only_sequences_changed_fields[OF fp])
  then obtain x where b: "create_body ev faults rq n1 n2 d2 = Inr x"
    using create_body_total[OF nf, of d2] by blast
  obtain i d3 where x: "x = (i, d3)" by (cases x) auto
  show ?thesis
    using v nf dr1 dr2 b x
    by (simp add: create_receipt_with_items_transaction_def)
qed

lemma create_written:
  assumes "create_receipt_with_items_transaction ev faults rq d = (Inr r, d')"
  shows "\<exists>invoiceNumber paymentNumber.
    invoices d' = invoices d @ [new_invoice_row ev rq invoiceNumber (next_invoice_id d)] \<and>
    invoice_items d' = invoice_items d @
       map (\<lambda>(i, it). new_invoice_item_row (next_invoice_id d) i it) (enumerate 0 (rq_items rq)) \<and>
    payments d' = payments d @
       [new_payment_row ev rq paymentNumber (next_invoice_id d) (next_payment_id d)] \<and>
    payment_allocations d' = payment_allocations d @
       [new_allocation_row rq (next_invoice_id d) (next_payment_id d) (next_allocation_id d)] \<and>
    receipts d' = receipts d @
       [new_receipt_row ev rq (next_invoice_id d) (next_payment_id d) (next_receipt_id d)] \<and>
    receipt_items d' = receipt_items d @
       map (\<lambda>(i, it). new_receipt_item_row (next_receipt_id d) i it) (enumerate 0 (rq_items rq))"
proof -
  from assms obtain invoiceNumber paymentNumber d2 ids where
    fp: "only_sequences_changed d d2"
    and b: "create_body ev faults rq invoiceNumber paymentNumber d2 = Inr (ids, d')"
    by (rule create_success)
  note f = only_sequences_changed_fields[OF fp]
  note w = create_body_written[OF b]
  show ?thesis
    apply (rule exI[of _ invoiceNumber])
    apply (rule exI[of _ paymentNumber])
    using w(2-7) by (simp only: f)
qed



lemma example_ok:
  "\<forall>s. \<not> no_faults s"
  "\<not> falsy_id (rq_company_id (request_with amount its))"
  "\<not> falsy_id (rq_customer_id (request_with amount its))"
  "p_amount (rq_payment (request_with (Some a) its)) \<noteq> None"
  "next_invoice_id db0 \<noteq> 0" "next_payment_id db0 \<noteq> 0" "next_receipt_id db0 \<noteq> 0"
  by (simp_all add: no_faults_def request_with_def falsy_id_def db0_def)


subsection \<open>Deletion of a receipt: auxiliary facts\<close>

lemma reverse_payment_Inr:
  assumes "reverse_payment faults paymentId d = Inr d'"
  shows "d' = (if falsy_id paymentId then d
               else d\<lparr>payment_audit_log :=
                        filter (\<lambda>a. al_payment_id a \<noteq> Some (int_of paymentId)) (payment_audit_log d),
                      payment_allocations :=
                        filter (\<lambda>a. pa_payment_id a \<noteq> int_of paymentId) (payment_allocations d),
                      payments := filter (\<lambda>p. pay_id p \<noteq> int_of paymentId) (payments d),
                      journal := journal d @ [DelAuditLog, DelAllocations, DelPayment]\<rparr>)"
proof (cases "falsy_id paymentId")
  case True
  then show ?thesis using assms by (simp add: reverse_payment_def)
next
  case False
  from assms False obtain d1 d2 where
    q1: "query faults DelAuditLog (FailedDelete DelAuditLog)
           (del_audit_of_payment (int_of paymentId)) d = Inr d1"
    and q2: "query faults DelAllocations (FailedDelete DelAllocations)
           (del_allocations_of_payment (int_of paymentId)) d1 = Inr d2"
    and q3: "query faults DelPayment (FailedDelete DelPayment)
           (del_payment (int_of paymentId)) d2 = Inr d'"
    by (auto simp: reverse_payment_def bind_err_Inr)
  note e1 = q1[unfolded query_Inr, THEN conjunct2]
  note e2 = q2[unfolded query_Inr, THEN conjunct2]
  note e3 = q3[unfolded query_Inr, THEN conjunct2]
  show ?thesis
    using False
    by (simp add: e3 e2 e1 del_audit_of_payment_def del_allocations_of_payment_def del_payment_def)
qed

lemma reverse_payment_total:
  "\<forall>s. \<not> faults s \<Longrightarrow> \<exists>d'. reverse_payment faults paymentId d = Inr d'"
  by (simp add: reverse_payment_def bind_err_def query_def)

lemma recalculate_invoice_Inr:
  assumes "recalculate_invoice faults invoiceId d = Inr d'"
  shows "d' = (if falsy_id invoiceId then d
               else (case find_invoice d (int_of invoiceId) of
                       None \<Rightarrow> d
                     | Some invoice \<Rightarrow>
                         d\<lparr>invoices :=
                             map (\<lambda>r. if inv_id r = int_of invoiceId
                                      then r\<lparr>inv_status :=
                                               recomputed_status (allocated_sum d (int_of invoiceId))
                                                 (inv_total_amount invoice),
                                             inv_paid_amount := allocated_sum d (int_of invoiceId),
                                             inv_balance_due :=
                                               recomputed_balance_due (inv_total_amount invoice)
                                                 (allocated_sum d (int_of invoiceId))\<rparr>
                                      else r)
                                 (invoices d),
                           journal := journal d @ [UpdInvoice]\<rparr>))"
  using assms
  by (auto simp: recalculate_invoice_def Let_def query_Inr update_invoice_def
      split: if_splits option.splits)

lemma recalculate_invoice_total:
  "\<forall>s. \<not> faults s \<Longrightarrow> \<exists>d'. recalculate_invoice faults invoiceId d = Inr d'"
  by (simp add: recalculate_invoice_def Let_def query_def split: option.splits)

lemma delete_receipt_body_steps:
  assumes "delete_receipt_body faults receiptId d = Inr (resp, d')"
  obtains receipt d1 d2 d3 where
    "find_receipt d receiptId = Some receipt"
    "query faults DelReceiptItems (FailedDelete DelReceiptItems) (del_receipt_items receiptId) d
       = Inr d1"
    "reverse_payment faults (rc_payment_id receipt) d1 = Inr d2"
    "recalculate_invoice faults (rc_invoice_id receipt) d2 = Inr d3"
    "query faults DelReceipt (FailedDelete DelReceipt) (del_receipt receiptId) d3 = Inr d'"
    "resp = \<lparr>drr_receipt_id = receiptId, drr_receipt_number = rc_receipt_number receipt,
             drr_invoice_id = rc_invoice_id receipt, drr_payment_id = rc_payment_id receipt,
             drr_amount_reversed = rc_total_amount receipt\<rparr>"
proof -
  from assms obtain receipt where f: "find_receipt d receiptId = Some receipt"
    by (auto simp: delete_receipt_body_def split: if_splits option.splits)
  from assms f have b: "bind_err (query faults DelReceiptItems (FailedDelete DelReceiptItems)
                         (del_receipt_items receiptId) d) (\<lambda>d1.
             bind_err (reverse_payment faults (rc_payment_id receipt) d1) (\<lambda>d2.
             bind_err (recalculate_invoice faults (rc_invoice_id receipt) d2) (\<lambda>d3.
             bind_err (query faults DelReceipt (FailedDelete DelReceipt)
                         (del_receipt receiptId) d3) (\<lambda>d4.
             Inr (\<lparr>drr_receipt_id = receiptId,
                   drr_receipt_number = rc_receipt_number receipt,
                   drr_invoice_id = rc_invoice_id receipt,
                   drr_payment_id = rc_payment_id receipt,
                   drr_amount_reversed = rc_total_amount receipt\<rparr>, d4))))) = Inr (resp, d')"
    by (auto simp: delete_receipt_body_def split: if_splits)
  from b obtain d1 where q1: "query faults DelReceiptItems (FailedDelete DelReceiptItems)
                         (del_receipt_items receiptId) d = Inr d1"
    and b1: "bind_err (reverse_payment faults (rc_payment_id receipt) d1) (\<lambda>d2.
             bind_err (recalculate_invoice faults (rc_invoice_id receipt) d2) (\<lambda>d3.
             bind_err (query faults DelReceipt (FailedDelete DelReceipt)
                         (del_receipt receiptId) d3) (\<lambda>d4.
             Inr (\<lparr>drr_receipt_id = receiptId,
                   drr_receipt_number = rc_receipt_number receipt,
                   drr_invoice_id = rc_invoice_id receipt,
                   drr_payment_id = rc_payment_id receipt,
                   drr_amount_reversed = rc_total_amount receipt\<rparr>, d4)))) = Inr (resp, d')"
    by (subst (asm) bind_err_Inr) blast
  from b1 obtain d2 where q2: "reverse_payment faults (rc_payment_id receipt) d1 = Inr d2"
    and b2: "bind_err (recalculate_invoice faults (rc_invoice_id receipt) d2) (\<lambda>d3.
             bind_err (query faults DelReceipt (FailedDelete DelReceipt)
                         (del_receipt receiptId) d3) (\<lambda>d4.
             Inr (\<lparr>drr_receipt_id = receiptId,
                   drr_receipt_number = rc_receipt_number receipt,
                   drr_invoice_id = rc_invoice_id receipt,
                   drr_payment_id = rc_payment_id receipt,
                   drr_amount_reversed = rc_total_amount receipt\<rparr>, d4))) = Inr (resp, d')"
    by (subst (asm) bind_err_Inr) blast
  from b2 obtain d3 where q3: "recalculate_invoice faults (rc_invoice_id receipt) d2 = Inr d3"
    and b3: "bind_err (query faults DelReceipt (FailedDelete DelReceipt)
                         (del_receipt receiptId) d3) (\<lambda>d4.
             Inr (\<lparr>drr_receipt_id = receiptId,
                   drr_receipt_number = rc_receipt_number receipt,
                   drr_invoice_id = rc_invoice_id receipt,
                   drr_payment_id = rc_payment_id receipt,
                   drr_amount_reversed = rc_total_amount receipt\<rparr>, d4)) = Inr (resp, d')"
    by (subst (asm) bind_err_Inr) blast
  from b3 have q4: "query faults DelReceipt (FailedDelete DelReceipt) (del_receipt receiptId) d3
      = Inr d'"
    and r: "resp = \<lparr>drr_receipt_id = receiptId, drr_receipt_number = rc_receipt_number receipt,
             drr_invoice_id = rc_invoice_id receipt, drr_payment_id = rc_payment_id receipt,
             drr_amount_reversed = rc_total_amount receipt\<rparr>"
    by (auto simp: bind_err_Inr)
  show thesis by (rule that[OF f q1 q2 q3 q4 r])
qed

lemma delete_receipt_body_total:
  assumes nf: "\<forall>s. \<not> faults s" and f: "find_receipt d receiptId = Some receipt"
  shows "\<exists>x. delete_receipt_body faults receiptId d = Inr x"
proof -
  obtain d1 where q1: "query faults DelReceiptItems (FailedDelete DelReceiptItems)
      (del_receipt_items receiptId) d = Inr d1"
    using nf by (simp add: query_def)
  obtain d2 where q2: "reverse_payment faults (rc_payment_id receipt) d1 = Inr d2"
    using reverse_payment_total[OF nf] by blast
  obtain d3 where q3: "recalculate_invoice faults (rc_invoice_id receipt) d2 = Inr d3"
    using recalculate_invoice_total[OF nf] by blast
  obtain d4 where q4: "query faults DelReceipt (FailedDelete DelReceipt)
      (del_receipt receiptId) d3 = Inr d4"
    using nf by (simp add: query_def)
  show ?thesis
    using nf f by (simp add: delete_receipt_body_def q1 q2 q3 q4 bind_err_def)
qed

text \<open>Every failing path of the two deletions returns the store it was given.\<close>

lemma delete_receipt_failure_unchanged:
  "delete_receipt_with_cascade faults receipt_id d = (Inl e, d') \<Longrightarrow> d' = d"
  by (auto simp: delete_receipt_with_cascade_def split: if_splits sum.splits prod.splits)

lemma delete_invoice_failure_unchanged:
  "delete_invoice_with_cascade faults invoice_id d = (Inl e, d') \<Longrightarrow> d' = d"
  by (auto simp: delete_invoice_with_cascade_def split: if_splits sum.splits prod.splits)

text \<open>
  What a receipt deletion does when nothing fails, for a receipt that has a payment and
  an invoice.
\<close>

lemma delete_receipt_effect:
  assumes nf: "\<forall>s. \<not> faults s"
    and rid: "0 < receiptId"
    and rc: "find_receipt d receiptId = Some receipt"
    and p: "rc_payment_id receipt = Some paymentId" "paymentId \<noteq> 0"
    and i: "rc_invoice_id receipt = Some invoiceId" "invoiceId \<noteq> 0"
    and inv: "find_invoice d invoiceId = Some invoice"
  shows "\<exists>resp d'.
    delete_receipt_with_cascade faults (Some receiptId) d = (Inr resp, d') \<and>
    journal d' = journal d @
      [DelReceiptItems, DelAuditLog, DelAllocations, DelPayment, UpdInvoice, DelReceipt] \<and>
    receipt_items d' = filter (\<lambda>i. ri_receipt_id i \<noteq> receiptId) (receipt_items d) \<and>
    payment_audit_log d' = filter (\<lambda>a. al_payment_id a \<noteq> Some paymentId) (payment_audit_log d) \<and>
    payment_allocations d' = filter (\<lambda>a. pa_payment_id a \<noteq> paymentId) (payment_allocations d) \<and>
    payments d' = filter (\<lambda>p. pay_id p \<noteq> paymentId) (payments d) \<and>
    receipts d' = filter (\<lambda>r. rc_id r \<noteq> receiptId) (receipts d) \<and>
    invoices d' =
      map (\<lambda>r. if inv_id r = invoiceId
               then r\<lparr>inv_status :=
                        recomputed_status (allocated_sum d' invoiceId) (inv_total_amount invoice),
                      inv_paid_amount := allocated_sum d' invoiceId,
                      inv_balance_due :=
                        max 0 (inv_total_amount invoice - allocated_sum d' invoiceId)\<rparr>
               else r)
          (invoices d) \<and>
    invoice_items d' = invoice_items d \<and>
    resp = \<lparr>drr_receipt_id = receiptId, drr_receipt_number = rc_receipt_number receipt,
            drr_invoice_id = Some invoiceId, drr_payment_id = Some paymentId,
            drr_amount_reversed = rc_total_amount receipt\<rparr>"
proof -
  obtain x where "delete_receipt_body faults receiptId d = Inr x"
    using delete_receipt_body_total[OF nf rc] by blast
  then obtain resp d' where b: "delete_receipt_body faults receiptId d = Inr (resp, d')"
    by (cases x) auto
  have top: "delete_receipt_with_cascade faults (Some receiptId) d = (Inr resp, d')"
    using nf rid b by (simp add: delete_receipt_with_cascade_def falsy_id_def int_of_def)
  from b obtain receipt' d1 d2 d3 where
    f: "find_receipt d receiptId = Some receipt'"
    and q1: "query faults DelReceiptItems (FailedDelete DelReceiptItems)
               (del_receipt_items receiptId) d = Inr d1"
    and q2: "reverse_payment faults (rc_payment_id receipt') d1 = Inr d2"
    and q3: "recalculate_invoice faults (rc_invoice_id receipt') d2 = Inr d3"
    and q4: "query faults DelReceipt (FailedDelete DelReceipt) (del_receipt receiptId) d3 = Inr d'"
    and r: "resp = \<lparr>drr_receipt_id = receiptId, drr_receipt_number = rc_receipt_number receipt',
             drr_invoice_id = rc_invoice_id receipt', drr_payment_id = rc_payment_id receipt',
             drr_amount_reversed = rc_total_amount receipt'\<rparr>"
    by (rule delete_receipt_body_steps)
  have same: "receipt' = receipt" using f rc by simp
  note e1 = q1[unfolded query_Inr, THEN conjunct2]
  have e2: "d2 = d1\<lparr>payment_audit_log :=
                        filter (\<lambda>a. al_payment_id a \<noteq> Some paymentId) (payment_audit_log d1),
                      payment_allocations :=
                        filter (\<lambda>a. pa_payment_id a \<noteq> paymentId) (payment_allocations d1),
                      payments := filter (\<lambda>p. pay_id p \<noteq> paymentId) (payments d1),
                      journal := journal d1 @ [DelAuditLog, DelAllocations, DelPayment]\<rparr>"
    using reverse_payment_Inr[OF q2] p by (simp add: same falsy_id_def int_of_def)
  have inv2: "find_invoice d2 invoiceId = Some invoice"
    using inv by (simp add: find_invoice_def e2 e1 del_receipt_items_def)
  let ?P = "allocated_sum d2 invoiceId"
  have e3: "d3 = d2\<lparr>invoices :=
                       map (\<lambda>r. if inv_id r = invoiceId
                                then r\<lparr>inv_status := recomputed_status ?P (inv_total_amount invoice),
                                       inv_paid_amount := ?P,
                                       inv_balance_due :=
                                         recomputed_balance_due (inv_total_amount invoice) ?P\<rparr>
                                else r)
                           (invoices d2),
                     journal := journal d2 @ [UpdInvoice]\<rparr>"
    using recalculate_invoice_Inr[OF q3] i inv2 by (simp add: same falsy_id_def int_of_def)
  note e4 = q4[unfolded query_Inr, THEN conjunct2]
  have a: "payment_allocations d' = payment_allocations d2"
    by (simp add: e4 e3 del_receipt_def)
  have P: "allocated_sum d' invoiceId = ?P"
    by (simp add: allocated_sum_def a)
  have j: "journal d' = journal d @
      [DelReceiptItems, DelAuditLog, DelAllocations, DelPayment, UpdInvoice, DelReceipt]"
    by (simp add: e4 e3 e2 e1 del_receipt_def del_receipt_items_def)
  have ri: "receipt_items d' = filter (\<lambda>i. ri_receipt_id i \<noteq> receiptId) (receipt_items d)"
    by (simp add: e4 e3 e2 e1 del_receipt_def del_receipt_items_def)
  have al: "payment_audit_log d' =
      filter (\<lambda>a. al_payment_id a \<noteq> Some paymentId) (payment_audit_log d)"
    by (simp add: e4 e3 e2 e1 del_receipt_def del_receipt_items_def)
  have pa: "payment_allocations d' =
      filter (\<lambda>a. pa_payment_id a \<noteq> paymentId) (payment_allocations d)"
    by (simp add: e4 e3 e2 e1 del_receipt_def del_receipt_items_def)
  have py: "payments d' = filter (\<lambda>p. pay_id p \<noteq> paymentId) (payments d)"
    by (simp add: e4 e3 e2 e1 del_receipt_def del_receipt_items_def)
  have rs: "receipts d' = filter (\<lambda>r. rc_id r \<noteq> receiptId) (receipts d)"
    by (simp add: e4 e3 e2 e1 del_receipt_def del_receipt_items_def)
  have iv2: "invoices d2 = invoices d"
    by (simp add: e2 e1 del_receipt_items_def)
  have iv: "invoices d' =
      map (\<lambda>r. if inv_id r = invoiceId
               then r\<lparr>inv_status :=
                        recomputed_status (allocated_sum d' invoiceId) (inv_total_amount invoice),
                      inv_paid_amount := allocated_sum d' invoiceId,
                      inv_balance_due :=
                        max 0 (inv_total_amount invoice - allocated_sum d' invoiceId)\<rparr>
               else r)
          (invoices d)"
    unfolding P by (simp add: e4 e3 iv2 del_receipt_def recomputed_balance_due_def)
  have ii: "invoice_items d' = invoice_items d"
    by (simp add: e4 e3 e2 e1 del_receipt_def del_receipt_items_def)
  have rr: "resp = \<lparr>drr_receipt_id = receiptId, drr_receipt_number = rc_receipt_number receipt,
            drr_invoice_id = Some invoiceId, drr_payment_id = Some paymentId,
            drr_amount_reversed = rc_total_amount receipt\<rparr>"
    using r p i by (simp add: same)
  show ?thesis
    apply (rule exI[of _ resp])
    apply (rule exI[of _ d'])
    apply (intro conjI)
    apply (rule top)
    apply (rule j)
    apply (rule ri)
    apply (rule al)
    apply (rule pa)
    apply (rule py)
    apply (rule rs)
    apply (rule iv)
    apply (rule ii)
    apply (rule rr)
    done
qed

text \<open>The two deletions on the store with receipts of 600 and 400, one after the other.\<close>

lemma two_receipts_reversal:
  "\<exists>resp1 d1 resp2 d2.
     map (\<lambda>r. (inv_total_amount r, inv_paid_amount r, inv_balance_due r, inv_status r))
       (invoices db_two_receipts) = [(1000, 1000, 0, ''paid'')] \<and>
     delete_receipt_with_cascade no_faults (Some 2) db_two_receipts = (Inr resp1, d1) \<and>
     drr_amount_reversed resp1 = 400 \<and>
     map (\<lambda>r. (inv_total_amount r, inv_paid_amount r, inv_balance_due r, inv_status r))
       (invoices d1) = [(1000, 600, 400, ''partial'')] \<and>
     delete_receipt_with_cascade no_faults (Some 1) d1 = (Inr resp2, d2) \<and>
     drr_amount_reversed resp2 = 600 \<and>
     map (\<lambda>r. (inv_total_amount r, inv_paid_amount r, inv_balance_due r, inv_status r))
       (invoices d2) = [(1000, 0, 1000, ''draft'')] \<and>
     receipts d2 = [] \<and> payments d2 = [] \<and> payment_allocations d2 = []"
proof -
  have nf: "\<forall>s. \<not> no_faults s" by (simp add: no_faults_def)
  have r2: "find_receipt db_two_receipts 2 = Some receipt_400"
    by (simp add: find_receipt_def db_two_receipts_def receipt_600_def receipt_400_def)
  have i1: "find_invoice db_two_receipts 1 = Some invoice_1000"
    by (simp add: find_invoice_def db_two_receipts_def invoice_1000_def)
  have z: "0 < (2::int)" "(2::int) \<noteq> 0" "0 < (1::int)" "(1::int) \<noteq> 0" by simp_all
  have p2: "rc_payment_id receipt_400 = Some 2" "rc_invoice_id receipt_400 = Some 1"
    by (simp_all add: receipt_400_def)
  have p1: "rc_payment_id receipt_600 = Some 1" "rc_invoice_id receipt_600 = Some 1"
    by (simp_all add: receipt_600_def)
  from delete_receipt_effect[OF nf z(1) r2 p2(1) z(2) p2(2) z(4) i1]
  obtain resp1 d1 where
    s1: "delete_receipt_with_cascade no_faults (Some 2) db_two_receipts = (Inr resp1, d1)"
    and pa1: "payment_allocations d1 =
        filter (\<lambda>a. pa_payment_id a \<noteq> 2) (payment_allocations db_two_receipts)"
    and py1: "payments d1 = filter (\<lambda>p. pay_id p \<noteq> 2) (payments db_two_receipts)"
    and rs1: "receipts d1 = filter (\<lambda>r. rc_id r \<noteq> 2) (receipts db_two_receipts)"
    and iv1: "invoices d1 =
      map (\<lambda>r. if inv_id r = 1
               then r\<lparr>inv_status :=
                        recomputed_status (allocated_sum d1 1) (inv_total_amount invoice_1000),
                      inv_paid_amount := allocated_sum d1 1,
                      inv_balance_due :=
                        max 0 (inv_total_amount invoice_1000 - allocated_sum d1 1)\<rparr>
               else r)
          (invoices db_two_receipts)"
    and rr1: "resp1 = \<lparr>drr_receipt_id = 2, drr_receipt_number = rc_receipt_number receipt_400,
            drr_invoice_id = Some 1, drr_payment_id = Some 2,
            drr_amount_reversed = rc_total_amount receipt_400\<rparr>"
    by blast
  have sum1: "allocated_sum d1 1 = 600"
    by (simp add: allocated_sum_def pa1 db_two_receipts_def)
  let ?inv1 = "invoice_1000\<lparr>inv_status := ''partial'', inv_paid_amount := 600,
                 inv_balance_due := 400\<rparr>"
  have inv1: "invoices d1 = [?inv1]"
    by (simp add: iv1 sum1 db_two_receipts_def invoice_1000_def recomputed_status_def)
  have r1: "find_receipt d1 1 = Some receipt_600"
    by (simp add: find_receipt_def rs1 db_two_receipts_def receipt_600_def receipt_400_def)
  have i2: "find_invoice d1 1 = Some ?inv1"
    by (simp add: find_invoice_def inv1 invoice_1000_def)
  from delete_receipt_effect[OF nf z(3) r1 p1(1) z(4) p1(2) z(4) i2]
  obtain resp2 d2 where
    s2: "delete_receipt_with_cascade no_faults (Some 1) d1 = (Inr resp2, d2)"
    and pa2: "payment_allocations d2 = filter (\<lambda>a. pa_payment_id a \<noteq> 1) (payment_allocations d1)"
    and py2: "payments d2 = filter (\<lambda>p. pay_id p \<noteq> 1) (payments d1)"
    and rs2: "receipts d2 = filter (\<lambda>r. rc_id r \<noteq> 1) (receipts d1)"
    and iv2: "invoices d2 =
      map (\<lambda>r. if inv_id r = 1
               then r\<lparr>inv_status :=
                        recomputed_status (allocated_sum d2 1) (inv_total_amount ?inv1),
                      inv_paid_amount := allocated_sum d2 1,
                      inv_balance_due := max 0 (inv_total_amount ?inv1 - allocated_sum d2 1)\<rparr>
               else r)
          (invoices d1)"
    and rr2: "resp2 = \<lparr>drr_receipt_id = 1, drr_receipt_number = rc_receipt_number receipt_600,
            drr_invoice_id = Some 1, drr_payment_id = Some 1,
            drr_amount_reversed = rc_total_amount receipt_600\<rparr>"
    by blast
  have sum2: "allocated_sum d2 1 = 0"
    by (simp add: allocated_sum_def pa2 pa1 db_two_receipts_def)
  have inv2: "map (\<lambda>r. (inv_total_amount r, inv_paid_amount r, inv_balance_due r, inv_status r))
       (invoices d2) = [(1000, 0, 1000, ''draft'')]"
    by (simp add: iv2 sum2 inv1 invoice_1000_def recomputed_status_def)
  have e: "receipts d2 = []" "payments d2 = []" "payment_allocations d2 = []"
    by (simp_all add: rs2 rs1 py2 py1 pa2 pa1 db_two_receipts_def receipt_600_def receipt_400_def)
  have a0: "map (\<lambda>r. (inv_total_amount r, inv_paid_amount r, inv_balance_due r, inv_status r))
       (invoices db_two_receipts) = [(1000, 1000, 0, ''paid'')]"
    by (simp add: db_two_receipts_def invoice_1000_def)
  have a1: "map (\<lambda>r. (inv_total_amount r, inv_paid_amount r, inv_balance_due r, inv_status r))
       (invoices d1) = [(1000, 600, 400, ''partial'')]"
    by (simp add: inv1 invoice_1000_def)
  have m1: "drr_amount_reversed resp1 = 400" by (simp add: rr1 receipt_400_def)
  have m2: "drr_amount_reversed resp2 = 600" by (simp add: rr2 receipt_600_def)
  show ?thesis
    apply (rule exI[of _ resp1])
    apply (rule exI[of _ d1])
    apply (rule exI[of _ resp2])
    apply (rule exI[of _ d2])
    apply (intro conjI)
    apply (rule a0)
    apply (rule s1)
    apply (rule m1)
    apply (rule a1)
    apply (rule s2)
    apply (rule m2)
    apply (rule inv2)
    apply (rule e(1))
    apply (rule e(2))
    apply (rule e(3))
    done
qed


subsection \<open>Deletions: auxiliary facts about the deleted row\<close>

lemma find_filter_None: "find (\<lambda>r. f r = i) (filter (\<lambda>r. f r \<noteq> i) xs) = None"
  by (induction xs) simp_all

lemma bind_err_Inr_E:
  "bind_err m f = Inr y \<Longrightarrow> (\<And>x. m = Inr x \<Longrightarrow> f x = Inr y \<Longrightarrow> P) \<Longrightarrow> P"
  by (auto simp: bind_err_Inr)

lemma delete_invoice_body_invoices:
  "delete_invoice_body faults invoiceId d = Inr (resp, d') \<Longrightarrow>
   invoices d' = filter (\<lambda>r. inv_id r \<noteq> invoiceId) (invoices d)"
  unfolding delete_invoice_body_def Let_def
  apply (cases "if faults SelInvoice then None else find_invoice d invoiceId")
   apply simp
  apply (simp only: option.case)
  apply (erule bind_err_Inr_E)+
  apply (auto simp: query_Inr bind_err_Inr del_audit_for_invoice_def
      del_receipt_items_of_payments_def del_receipts_of_payments_def
      del_allocations_of_invoice_def del_payments_of_invoice_def
      del_credit_note_allocations_def del_stock_movements_def del_invoice_items_def
      del_invoice_def split: if_splits)
  done

lemma delete_invoice_success_gone:
  assumes "delete_invoice_with_cascade faults invoice_id d = (Inr resp, d')"
  shows "find_invoice d' (int_of invoice_id) = None"
proof -
  from assms have "delete_invoice_body faults (int_of invoice_id) d = Inr (resp, d')"
    by (auto simp: delete_invoice_with_cascade_def split: if_splits sum.splits)
  then show ?thesis
    by (simp add: find_invoice_def delete_invoice_body_invoices find_filter_None)
qed

lemma delete_receipt_body_receipts:
  assumes "delete_receipt_body faults receiptId d = Inr (resp, d')"
  shows "receipts d' = filter (\<lambda>r. rc_id r \<noteq> receiptId) (receipts d)"
proof -
  from assms obtain receipt d1 d2 d3 where
    f: "find_receipt d receiptId = Some receipt"
    and q1: "query faults DelReceiptItems (FailedDelete DelReceiptItems) (del_receipt_items receiptId) d
       = Inr d1"
    and q2: "reverse_payment faults (rc_payment_id receipt) d1 = Inr d2"
    and q3: "recalculate_invoice faults (rc_invoice_id receipt) d2 = Inr d3"
    and q4: "query faults DelReceipt (FailedDelete DelReceipt) (del_receipt receiptId) d3 = Inr d'"
    and r: "resp = \<lparr>drr_receipt_id = receiptId, drr_receipt_number = rc_receipt_number receipt,
             drr_invoice_id = rc_invoice_id receipt, drr_payment_id = rc_payment_id receipt,
             drr_amount_reversed = rc_total_amount receipt\<rparr>"
    by (rule delete_receipt_body_steps)
  have r1: "receipts d1 = receipts d"
    using q1 by (auto simp: query_Inr del_receipt_items_def)
  have r2: "receipts d2 = receipts d1"
    by (subst reverse_payment_Inr[OF q2]) simp
  have r3: "receipts d3 = receipts d2"
    by (subst recalculate_invoice_Inr[OF q3]) (simp split: option.splits)
  have r4: "receipts d' = filter (\<lambda>r. rc_id r \<noteq> receiptId) (receipts d3)"
    using q4 by (auto simp: query_Inr del_receipt_def)
  show ?thesis by (simp add: r4 r3 r2 r1)
qed

lemma delete_receipt_success_gone:
  assumes "delete_receipt_with_cascade faults receipt_id d = (Inr resp, d')"
  shows "find_receipt d' (int_of receipt_id) = None"
proof -
  from assms have "delete_receipt_body faults (int_of receipt_id) d = Inr (resp, d')"
    by (auto simp: delete_receipt_with_cascade_def split: if_splits sum.splits)
  then show ?thesis
    by (simp add: find_receipt_def delete_receipt_body_receipts find_filter_None)
qed

lemma delete_invoice_not_found:
  assumes "find_invoice d (int_of invoice_id) = None"
  shows "delete_invoice_with_cascade faults invoice_id d =
    (Inl (if falsy_id invoice_id then MissingInvoiceId
          else if faults BeginTransaction then FailedStartTransaction
          else InvoiceDeletionFailed InvoiceNotFound), d)"
  using assms by (simp add: delete_invoice_with_cascade_def delete_invoice_body_def)

lemma delete_receipt_not_found:
  assumes "find_receipt d (int_of receipt_id) = None"
  shows "delete_receipt_with_cascade faults receipt_id d =
    (Inl (ReceiptDeletionFailed
           (if falsy_id receipt_id then MissingReceiptId
            else if int_of receipt_id \<le> 0 then InvalidReceiptId
            else if faults BeginTransaction then FailedStartTransaction
            else if faults SelReceipt then DatabaseQueryError
            else ReceiptNotFound)), d)"
  using assms by (simp add: delete_receipt_with_cascade_def delete_receipt_body_def)

subsection \<open>The paid amount and the allocations of an invoice\<close>








subsection \<open>Numbers drawn for a creation: auxiliary facts\<close>

text \<open>
  A draw for the current year, when none of the allocator's statements fails: the
  number, the counter afterwards, the other counters, and the statements run.
\<close>

lemma allocate_internal:
  assumes ok: "\<not> faults (SeqCheck ty)" "\<not> faults (SeqInsert ty)" "\<not> faults (SeqUpdate ty)"
      "\<not> faults (SeqFetch ty)"
    and ty: "ty \<in> set valid_types_internal"
    and k: "seq_lookup d ty (current_year ev) = Some k \<or>
            seq_lookup d ty (current_year ev) = None \<and> k = 0"
  shows "\<exists>d'.
      getNextDocumentNumberInternal ev faults ty None d =
        (Inr (format_document_number ty (current_year ev) (k + 1)), d') \<and>
      seq_lookup d' ty (current_year ev) = Some (k + 1) \<and>
      (\<forall>ty' yr'. (ty', yr') \<noteq> (ty, current_year ev) \<longrightarrow>
         seq_lookup d' ty' yr' = seq_lookup d ty' yr') \<and>
      journal d' = journal d @
         (if seq_lookup d ty (current_year ev) = None then [SeqInsert ty, SeqUpdate ty]
          else [SeqUpdate ty])"
  using k
proof
  let ?yr = "current_year ev"
  assume present: "seq_lookup d ty ?yr = Some k"
  let ?d' = "(seq_increment ty ?yr d)\<lparr>journal := journal d @ [SeqUpdate ty]\<rparr>"
  have ns: "next_sequence faults ty ?yr d = (Inr (k + 1), ?d')"
    using ok present by (intro next_sequence_present) auto
  have c1: "getNextDocumentNumberInternal ev faults ty None d =
           (Inr (format_document_number ty ?yr (k + 1)), ?d')"
    using ns ty by (simp add: getNextDocumentNumberInternal_def resolve_year_def)
  have c3: "seq_lookup ?d' ty ?yr = Some (k + 1)"
    by (simp add: seq_lookup_increment_same present)
  have c4: "\<forall>ty' yr'. (ty', yr') \<noteq> (ty, ?yr) \<longrightarrow> seq_lookup ?d' ty' yr' = seq_lookup d ty' yr'"
    by (simp add: seq_lookup_increment_other)
  have c5: "journal ?d' = journal d @
         (if seq_lookup d ty ?yr = None then [SeqInsert ty, SeqUpdate ty] else [SeqUpdate ty])"
    using present by simp
  show ?thesis
    by (rule exI[of _ ?d']) (intro conjI c1 c3 c4 c5)
next
  let ?yr = "current_year ev"
  assume absent: "seq_lookup d ty ?yr = None \<and> k = 0"
  let ?d' = "(seq_increment ty ?yr (seq_insert ty ?yr d))\<lparr>journal := journal d @ [SeqInsert ty, SeqUpdate ty]\<rparr>"
  have ns: "next_sequence faults ty ?yr d = (Inr (k + 1), ?d')"
    using ok absent next_sequence_absent[of faults ty d ?yr] by simp
  have c1: "getNextDocumentNumberInternal ev faults ty None d =
           (Inr (format_document_number ty ?yr (k + 1)), ?d')"
    using ns ty by (simp add: getNextDocumentNumberInternal_def resolve_year_def)
  have c3: "seq_lookup ?d' ty ?yr = Some (k + 1)"
    using absent by (simp add: seq_lookup_increment_same seq_lookup_insert_same)
  have c4: "\<forall>ty' yr'. (ty', yr') \<noteq> (ty, ?yr) \<longrightarrow> seq_lookup ?d' ty' yr' = seq_lookup d ty' yr'"
    by (simp add: seq_lookup_increment_other seq_lookup_insert_other)
  have c5: "journal ?d' = journal d @
         (if seq_lookup d ty ?yr = None then [SeqInsert ty, SeqUpdate ty] else [SeqUpdate ty])"
    using absent by simp
  show ?thesis
    by (rule exI[of _ ?d']) (intro conjI c1 c3 c4 c5)
qed

text \<open>
  A creation that draws both numbers and then fails ends in the store the two draws
  have left, with the error of the transaction.
\<close>

lemma create_failure_after_draws:
  assumes v: "\<not> falsy_id (rq_company_id rq)" "\<not> falsy_id (rq_customer_id rq)"
      "p_amount (rq_payment rq) \<noteq> None"
    and n: "empty_str (i_invoice_number (rq_invoice rq))"
      "empty_str (p_payment_number (rq_payment rq))"
    and g1: "getNextDocumentNumberInternal ev faults ''INV'' None d = (Inr n1, d1)"
    and g2: "getNextDocumentNumberInternal ev faults ''PAY'' None d1 = (Inr n2, d2)"
    and f: "create_receipt_with_items_transaction ev faults rq d = (Inl e, d')"
  shows "d' = d2 \<and> (e = FailedStartTransaction \<or> (\<exists>e'. e = ReceiptCreationFailed e'))"
  using f v n g1 g2
  by (auto simp: create_receipt_with_items_transaction_def draw_number_def
      split: if_splits sum.splits prod.splits)

lemma create_fails_on_receipt_item_fault:
  assumes a: "rq_items rq \<noteq> []" "faults (InsReceiptItem 0)"
  shows "\<exists>e d'. create_receipt_with_items_transaction ev faults rq d = (Inl e, d')"
proof -
  obtain r d' where out: "create_receipt_with_items_transaction ev faults rq d = (r, d')"
    by (cases "create_receipt_with_items_transaction ev faults rq d") auto
  have "\<not> (\<exists>x. r = Inr x)"
  proof
    assume "\<exists>x. r = Inr x"
    then obtain x where "create_receipt_with_items_transaction ev faults rq d = (Inr x, d')"
      using out by auto
    then obtain invoiceNumber paymentNumber d2 ids where
      "create_body ev faults rq invoiceNumber paymentNumber d2 = Inr (ids, d')"
      by (rule create_success)
    then show False
      using create_body_receipt_item_fault[of rq faults] a by blast
  qed
  then show ?thesis using out by (cases r) auto
qed

text \<open>
  The allocator runs in no transaction: when its last statement, the read-back, fails,
  the increment it has made stays.
\<close>

lemma allocate_internal_fetch_fault:
  assumes ok: "\<not> faults (SeqCheck ty)" "\<not> faults (SeqInsert ty)" "\<not> faults (SeqUpdate ty)"
    and ft: "faults (SeqFetch ty)"
    and ty: "ty \<in> set valid_types_internal"
    and k: "seq_lookup d ty (current_year ev) = Some k \<or>
            seq_lookup d ty (current_year ev) = None \<and> k = 0"
  shows "\<exists>d'. getNextDocumentNumberInternal ev faults ty None d = (Inl FailedFetchSequence, d') \<and>
              seq_lookup d' ty (current_year ev) = Some (k + 1)"
  using k
proof
  assume "seq_lookup d ty (current_year ev) = Some k"
  then show ?thesis
    using ok ft ty
    by (simp add: getNextDocumentNumberInternal_def resolve_year_def next_sequence_def
        query_def seq_lookup_increment_same)
next
  assume "seq_lookup d ty (current_year ev) = None \<and> k = 0"
  then show ?thesis
    using ok ft ty
    by (simp add: getNextDocumentNumberInternal_def resolve_year_def next_sequence_def
        query_def seq_lookup_increment_same seq_lookup_insert_same)
qed

lemma allocate_internal_number:
  assumes "\<not> faults (SeqCheck ty)" "\<not> faults (SeqInsert ty)" "\<not> faults (SeqUpdate ty)"
      "\<not> faults (SeqFetch ty)"
    and "ty \<in> set valid_types_internal"
    and "seq_lookup d ty (current_year ev) = Some k \<or>
         seq_lookup d ty (current_year ev) = None \<and> k = 0"
  shows "\<exists>d'. getNextDocumentNumberInternal ev faults ty None d =
          (Inr (format_document_number ty (current_year ev) (k + 1)), d')"
  using allocate_internal[OF assms] by blast

lemma pad4_inj: "pad4 a = pad4 b \<Longrightarrow> a = b"
  by (metis decimal_value_pad4)

lemma format_document_number_inj:
  "format_document_number ty yr a = format_document_number ty yr b \<Longrightarrow> a = b"
  by (simp add: format_document_number_def pad4_inj)

subsection \<open>Creation: atomicity\<close>

text \<open>
  C1. Whenever the action create-receipt-with-items-transaction ends with an error,
  whichever statement failed, the tables invoices, invoice-items, payments,
  payment-allocations, receipts and receipt-items are exactly as before the call: no
  row of the call is left. In particular, when items are supplied and the insert of the
  first receipt item is forced to fail, the action does end with an error.
\<close>

theorem C1_creation_is_atomic:
  "(rq_items rq \<noteq> [] \<and> faults (InsReceiptItem 0) \<longrightarrow>
      (\<exists>e. fst (create_receipt_with_items_transaction ev faults rq d) = Inl e)) \<and>
   ((\<exists>e. fst (create_receipt_with_items_transaction ev faults rq d) = Inl e) \<longrightarrow>
      invoices (snd (create_receipt_with_items_transaction ev faults rq d)) = invoices d \<and>
      invoice_items (snd (create_receipt_with_items_transaction ev faults rq d)) = invoice_items d \<and>
      payments (snd (create_receipt_with_items_transaction ev faults rq d)) = payments d \<and>
      payment_allocations (snd (create_receipt_with_items_transaction ev faults rq d)) =
        payment_allocations d \<and>
      receipts (snd (create_receipt_with_items_transaction ev faults rq d)) = receipts d \<and>
      receipt_items (snd (create_receipt_with_items_transaction ev faults rq d)) = receipt_items d)"
proof (intro conjI impI)
  assume a: "rq_items rq \<noteq> [] \<and> faults (InsReceiptItem 0)"
  obtain r d' where out: "create_receipt_with_items_transaction ev faults rq d = (r, d')"
    by (cases "create_receipt_with_items_transaction ev faults rq d") auto
  have "\<not> (\<exists>x. r = Inr x)"
  proof
    assume "\<exists>x. r = Inr x"
    then obtain x where "create_receipt_with_items_transaction ev faults rq d = (Inr x, d')"
      using out by auto
    then obtain invoiceNumber paymentNumber d2 ids where
      "create_body ev faults rq invoiceNumber paymentNumber d2 = Inr (ids, d')"
      by (rule create_success)
    then show False
      using create_body_receipt_item_fault[of rq faults] a by blast
  qed
  then show "\<exists>e. fst (create_receipt_with_items_transaction ev faults rq d) = Inl e"
    using out by (cases r) auto
next
  assume "\<exists>e. fst (create_receipt_with_items_transaction ev faults rq d) = Inl e"
  then obtain e where
    "create_receipt_with_items_transaction ev faults rq d =
       (Inl e, snd (create_receipt_with_items_transaction ev faults rq d))"
    by (metis prod.collapse)
  then have f: "only_sequences_changed d (snd (create_receipt_with_items_transaction ev faults rq d))"
    by (rule create_failure_footprint)
  show "invoices (snd (create_receipt_with_items_transaction ev faults rq d)) = invoices d"
    "invoice_items (snd (create_receipt_with_items_transaction ev faults rq d)) = invoice_items d"
    "payments (snd (create_receipt_with_items_transaction ev faults rq d)) = payments d"
    "payment_allocations (snd (create_receipt_with_items_transaction ev faults rq d)) =
        payment_allocations d"
    "receipts (snd (create_receipt_with_items_transaction ev faults rq d)) = receipts d"
    "receipt_items (snd (create_receipt_with_items_transaction ev faults rq d)) = receipt_items d"
    by (rule only_sequences_changed_fields[OF f])+
qed

text \<open>
  On an empty store, a request with one item whose receipt-item insert fails ends with
  an error and leaves all six tables empty.
\<close>

theorem C1_creation_is_atomic_witness:
  "(\<exists>e. fst (create_receipt_with_items_transaction env0 fail_first_receipt_item
             (request_with (Some 232) [item1]) db0) = Inl e) \<and>
   invoices (snd (create_receipt_with_items_transaction env0 fail_first_receipt_item
             (request_with (Some 232) [item1]) db0)) = [] \<and>
   invoice_items (snd (create_receipt_with_items_transaction env0 fail_first_receipt_item
             (request_with (Some 232) [item1]) db0)) = [] \<and>
   payments (snd (create_receipt_with_items_transaction env0 fail_first_receipt_item
             (request_with (Some 232) [item1]) db0)) = [] \<and>
   payment_allocations (snd (create_receipt_with_items_transaction env0 fail_first_receipt_item
             (request_with (Some 232) [item1]) db0)) = [] \<and>
   receipts (snd (create_receipt_with_items_transaction env0 fail_first_receipt_item
             (request_with (Some 232) [item1]) db0)) = [] \<and>
   receipt_items (snd (create_receipt_with_items_transaction env0 fail_first_receipt_item
             (request_with (Some 232) [item1]) db0)) = []"
  using C1_creation_is_atomic [of "request_with (Some 232) [item1]" fail_first_receipt_item env0 db0]
  by (simp add: request_with_def fail_first_receipt_item_def db0_def)

subsection \<open>Status derivation\<close>





subsection \<open>The paid amount of an invoice against its allocations\<close>




subsection \<open>Deletion of a receipt\<close>

text \<open>
  C4. For an existing receipt with a payment and an invoice, when no statement fails,
  the action delete-receipt-with-cascade succeeds and has applied to the store, in this
  order, the deletion of the receipt's items, of the audit entries of its payment, of
  the allocations of that payment, of the payment, the update of the invoice, and the
  deletion of the receipt. The invoice is kept, with paid amount equal to the sum of the
  remaining allocations of the invoice, balance due max(0, total - paid) and the status
  derived from both. Whatever statement fails instead, the store is left unchanged. On
  an invoice of 1000 paid by receipts of 600 and 400, deleting the receipt of 400 gives
  paid 600, balance 400, status partial, and deleting the receipt of 600 then gives paid
  0, balance 1000, status draft.
\<close>

theorem C4_delete_receipt_cascade:
  assumes nf: "\<forall>s. \<not> faults s"
    and rid: "0 < receiptId"
    and rc: "find_receipt d receiptId = Some receipt"
    and p: "rc_payment_id receipt = Some paymentId" "paymentId \<noteq> 0"
    and i: "rc_invoice_id receipt = Some invoiceId" "invoiceId \<noteq> 0"
    and inv: "find_invoice d invoiceId = Some invoice"
  shows "(\<exists>resp d'.
    delete_receipt_with_cascade faults (Some receiptId) d = (Inr resp, d') \<and>
    journal d' = journal d @
      [DelReceiptItems, DelAuditLog, DelAllocations, DelPayment, UpdInvoice, DelReceipt] \<and>
    receipt_items d' = filter (\<lambda>i. ri_receipt_id i \<noteq> receiptId) (receipt_items d) \<and>
    payment_audit_log d' = filter (\<lambda>a. al_payment_id a \<noteq> Some paymentId) (payment_audit_log d) \<and>
    payment_allocations d' = filter (\<lambda>a. pa_payment_id a \<noteq> paymentId) (payment_allocations d) \<and>
    payments d' = filter (\<lambda>p. pay_id p \<noteq> paymentId) (payments d) \<and>
    receipts d' = filter (\<lambda>r. rc_id r \<noteq> receiptId) (receipts d) \<and>
    invoices d' =
      map (\<lambda>r. if inv_id r = invoiceId
               then r\<lparr>inv_status :=
                        recomputed_status (allocated_sum d' invoiceId) (inv_total_amount invoice),
                      inv_paid_amount := allocated_sum d' invoiceId,
                      inv_balance_due :=
                        max 0 (inv_total_amount invoice - allocated_sum d' invoiceId)\<rparr>
               else r)
          (invoices d) \<and>
    invoice_items d' = invoice_items d \<and>
    resp = \<lparr>drr_receipt_id = receiptId, drr_receipt_number = rc_receipt_number receipt,
            drr_invoice_id = Some invoiceId, drr_payment_id = Some paymentId,
            drr_amount_reversed = rc_total_amount receipt\<rparr>) \<and>
   (\<forall>faults' e d'.
      delete_receipt_with_cascade faults' (Some receiptId) d = (Inl e, d') \<longrightarrow> d' = d) \<and>
   (\<exists>resp1 d1 resp2 d2.
     map (\<lambda>r. (inv_total_amount r, inv_paid_amount r, inv_balance_due r, inv_status r))
       (invoices db_two_receipts) = [(1000, 1000, 0, ''paid'')] \<and>
     delete_receipt_with_cascade no_faults (Some 2) db_two_receipts = (Inr resp1, d1) \<and>
     drr_amount_reversed resp1 = 400 \<and>
     map (\<lambda>r. (inv_total_amount r, inv_paid_amount r, inv_balance_due r, inv_status r))
       (invoices d1) = [(1000, 600, 400, ''partial'')] \<and>
     delete_receipt_with_cascade no_faults (Some 1) d1 = (Inr resp2, d2) \<and>
     drr_amount_reversed resp2 = 600 \<and>
     map (\<lambda>r. (inv_total_amount r, inv_paid_amount r, inv_balance_due r, inv_status r))
       (invoices d2) = [(1000, 0, 1000, ''draft'')] \<and>
     receipts d2 = [] \<and> payments d2 = [] \<and> payment_allocations d2 = [])"
proof (intro conjI)
  show "\<forall>faults' e d'.
      delete_receipt_with_cascade faults' (Some receiptId) d = (Inl e, d') \<longrightarrow> d' = d"
    using delete_receipt_failure_unchanged by blast
qed (rule delete_receipt_effect[OF assms], rule two_receipts_reversal)

text \<open>
  Deleting the receipt of 400 from the store with receipts of 600 and 400 issues the
  six writes in order and leaves the receipt of 600 and the allocation of 600.
\<close>

theorem C4_delete_receipt_cascade_witness:
  "\<exists>resp d'.
     delete_receipt_with_cascade no_faults (Some 2) db_two_receipts = (Inr resp, d') \<and>
     journal d' =
       [DelReceiptItems, DelAuditLog, DelAllocations, DelPayment, UpdInvoice, DelReceipt] \<and>
     receipts d' = [receipt_600] \<and>
     map pa_amount (payment_allocations d') = [600] \<and>
     map pay_id (payments d') = [1] \<and>
     map ri_receipt_id (receipt_items d') = [1] \<and>
     map al_payment_id (payment_audit_log d') = [Some 1]"
proof -
  have nf: "\<forall>s. \<not> no_faults s" by (simp add: no_faults_def)
  have r2: "find_receipt db_two_receipts 2 = Some receipt_400"
    by (simp add: find_receipt_def db_two_receipts_def receipt_600_def receipt_400_def)
  have i1: "find_invoice db_two_receipts 1 = Some invoice_1000"
    by (simp add: find_invoice_def db_two_receipts_def invoice_1000_def)
  have p: "rc_payment_id receipt_400 = Some 2" "rc_invoice_id receipt_400 = Some 1"
    by (simp_all add: receipt_400_def)
  have z: "0 < (2::int)" "(2::int) \<noteq> 0" "(1::int) \<noteq> 0" by simp_all
  from C4_delete_receipt_cascade[OF nf z(1) r2 p(1) z(2) p(2) z(3) i1, THEN conjunct1]
  obtain resp d' where
    "delete_receipt_with_cascade no_faults (Some 2) db_two_receipts = (Inr resp, d')"
    "journal d' = journal db_two_receipts @
      [DelReceiptItems, DelAuditLog, DelAllocations, DelPayment, UpdInvoice, DelReceipt]"
    "receipt_items d' = filter (\<lambda>i. ri_receipt_id i \<noteq> 2) (receipt_items db_two_receipts)"
    "payment_audit_log d' =
       filter (\<lambda>a. al_payment_id a \<noteq> Some 2) (payment_audit_log db_two_receipts)"
    "payment_allocations d' =
       filter (\<lambda>a. pa_payment_id a \<noteq> 2) (payment_allocations db_two_receipts)"
    "payments d' = filter (\<lambda>p. pay_id p \<noteq> 2) (payments db_two_receipts)"
    "receipts d' = filter (\<lambda>r. rc_id r \<noteq> 2) (receipts db_two_receipts)"
    by blast
  then show ?thesis
    by (intro exI[of _ resp] exI[of _ d'])
       (simp add: db_two_receipts_def receipt_600_def receipt_400_def)
qed

subsection \<open>Allocation of document numbers\<close>



subsection \<open>Creation: totals of the invoice\<close>




subsection \<open>Creation: subtotal and tax of the invoice\<close>

text \<open>
  C7 does not hold of the code. For one item of 2 units at 100 with 32 of tax the sum
  of quantity * unit price is 200 and the sum of the tax amounts is 32, yet the invoice
  row is written with subtotal 0 and tax amount 0 (and total 232): the insert statement
  carries the literal 0 for both columns.
\<close>

theorem C7_subtotal_and_tax_are_written_as_zero:
  "\<exists>r d' invoice.
     create_receipt_with_items_transaction env0 no_faults (request_with (Some 232) [item1]) db0
       = (Inr r, d') \<and>
     invoices d' = [invoice] \<and>
     inv_subtotal invoice = 0 \<and> inv_tax_amount invoice = 0 \<and> inv_total_amount invoice = 232 \<and>
     sum_list (map (\<lambda>it. float_of (it_quantity it) * float_of (it_unit_price it)) [item1]) = 200 \<and>
     sum_list (map (\<lambda>it. float_of (it_tax_amount it)) [item1]) = 32"
proof -
  obtain r d' where
    c: "create_receipt_with_items_transaction env0 no_faults (request_with (Some 232) [item1]) db0
          = (Inr r, d')"
    using create_total[OF example_ok(1-4) example_ok(5-7)] by blast
  from create_written[OF c] obtain invoiceNumber where
    i: "invoices d' = invoices db0 @
          [new_invoice_row env0 (request_with (Some 232) [item1]) invoiceNumber (next_invoice_id db0)]"
    by blast
  show ?thesis
    using c i
    by (simp add: db0_def new_invoice_row_def Let_def invoice_amount_def line_total_def
        request_with_def item1_def float_of_def)
qed


subsection \<open>Creation: validation\<close>

text \<open>
  C8, as amended. The action fails before any statement is issued, with the store
  exactly as it was, when the company id or the customer id is missing (absent, null
  or 0), with the error for a missing company or customer, and otherwise when the
  payment amount is missing, with the error for missing or invalid payment data. A
  negative amount is not among the rejected inputs.
\<close>

theorem C8_validation_before_any_write:
  "(falsy_id (rq_company_id rq) \<or> falsy_id (rq_customer_id rq) \<longrightarrow>
      create_receipt_with_items_transaction ev faults rq d = (Inl MissingCompanyOrCustomer, d)) \<and>
   (\<not> falsy_id (rq_company_id rq) \<and> \<not> falsy_id (rq_customer_id rq) \<and>
    p_amount (rq_payment rq) = None \<longrightarrow>
      create_receipt_with_items_transaction ev faults rq d = (Inl MissingOrInvalidPayment, d))"
  by (simp add: create_receipt_with_items_transaction_def)

theorem C8_validation_before_any_write_witness:
  "create_receipt_with_items_transaction env0 no_faults (request_with None [item1]) db0
     = (Inl MissingOrInvalidPayment, db0) \<and>
   create_receipt_with_items_transaction env0 no_faults
     ((request_with (Some 232) [item1])\<lparr>rq_customer_id := None\<rparr>) db0
     = (Inl MissingCompanyOrCustomer, db0)"
  using C8_validation_before_any_write [of "request_with None [item1]" env0 no_faults db0]
    C8_validation_before_any_write
      [of "(request_with (Some 232) [item1])\<lparr>rq_customer_id := None\<rparr>" env0 no_faults db0]
  by (simp add: request_with_def falsy_id_def)

text \<open>
  C8 as stated fails: a request with the negative amount -5 passes the validation,
  and the action succeeds and writes an invoice, a payment of -5, an allocation and a
  receipt.
\<close>

theorem C8_counterexample:
  "\<exists>r d'.
     create_receipt_with_items_transaction env0 no_faults (request_with (Some (- 5)) []) db0
       = (Inr r, d') \<and>
     length (invoices d') = 1 \<and> map pay_amount (payments d') = [- 5] \<and>
     map pa_amount (payment_allocations d') = [- 5] \<and> length (receipts d') = 1"
proof -
  obtain r d' where
    c: "create_receipt_with_items_transaction env0 no_faults (request_with (Some (- 5)) []) db0
          = (Inr r, d')"
    using create_total[OF example_ok(1-4) example_ok(5-7)] by blast
  from create_written[OF c] obtain invoiceNumber paymentNumber where
    "invoices d' = invoices db0 @
       [new_invoice_row env0 (request_with (Some (- 5)) []) invoiceNumber (next_invoice_id db0)]"
    "payments d' = payments db0 @
       [new_payment_row env0 (request_with (Some (- 5)) []) paymentNumber (next_invoice_id db0)
          (next_payment_id db0)]"
    "payment_allocations d' = payment_allocations db0 @
       [new_allocation_row (request_with (Some (- 5)) []) (next_invoice_id db0)
          (next_payment_id db0) (next_allocation_id db0)]"
    "receipts d' = receipts db0 @
       [new_receipt_row env0 (request_with (Some (- 5)) []) (next_invoice_id db0)
          (next_payment_id db0) (next_receipt_id db0)]"
    by blast
  then show ?thesis
    using c
    by (simp add: db0_def new_payment_row_def new_allocation_row_def request_with_def float_of_def)
qed

subsection \<open>Deletions of what does not exist\<close>

text \<open>
  C9, as amended. For every id that refers to no invoice (respectively no receipt) of
  the store, the deletion fails and leaves the store exactly as it was, journal
  included, so it has written nothing. The error is the not-found error when the id
  passes the parameter check (present and not 0; for a receipt, positive) and
  \<^verbatim>\<open>begin_transaction\<close> and the lookup of the receipt do not themselves fail; an id
  that is missing or 0 is reported as a missing parameter and a negative receipt id as
  an invalid one. After a successful deletion the id refers to nothing, so a second
  deletion of it fails in this way.
\<close>

theorem C9_not_found_is_terminal:
  "(find_invoice d (int_of invoice_id) = None \<longrightarrow>
      (\<exists>e. delete_invoice_with_cascade faults invoice_id d = (Inl e, d)) \<and>
      (falsy_id invoice_id \<longrightarrow>
         delete_invoice_with_cascade faults invoice_id d = (Inl MissingInvoiceId, d)) \<and>
      (\<not> falsy_id invoice_id \<and> \<not> faults BeginTransaction \<longrightarrow>
         delete_invoice_with_cascade faults invoice_id d =
           (Inl (InvoiceDeletionFailed InvoiceNotFound), d))) \<and>
   (find_receipt d (int_of receipt_id) = None \<longrightarrow>
      (\<exists>e. delete_receipt_with_cascade faults receipt_id d = (Inl e, d)) \<and>
      (falsy_id receipt_id \<longrightarrow>
         delete_receipt_with_cascade faults receipt_id d =
           (Inl (ReceiptDeletionFailed MissingReceiptId), d)) \<and>
      (int_of receipt_id < 0 \<longrightarrow>
         delete_receipt_with_cascade faults receipt_id d =
           (Inl (ReceiptDeletionFailed InvalidReceiptId), d)) \<and>
      (0 < int_of receipt_id \<and> \<not> faults BeginTransaction \<and> \<not> faults SelReceipt \<longrightarrow>
         delete_receipt_with_cascade faults receipt_id d =
           (Inl (ReceiptDeletionFailed ReceiptNotFound), d))) \<and>
   (\<forall>resp d'. delete_invoice_with_cascade faults invoice_id d = (Inr resp, d') \<longrightarrow>
      find_invoice d' (int_of invoice_id) = None \<and>
      (\<forall>faults2. \<not> faults2 BeginTransaction \<longrightarrow>
         delete_invoice_with_cascade faults2 invoice_id d' =
           (Inl (InvoiceDeletionFailed InvoiceNotFound), d'))) \<and>
   (\<forall>resp d'. delete_receipt_with_cascade faults receipt_id d = (Inr resp, d') \<longrightarrow>
      find_receipt d' (int_of receipt_id) = None \<and>
      (\<forall>faults2. \<not> faults2 BeginTransaction \<and> \<not> faults2 SelReceipt \<longrightarrow>
         delete_receipt_with_cascade faults2 receipt_id d' =
           (Inl (ReceiptDeletionFailed ReceiptNotFound), d')))"
proof (intro conjI impI allI)
  assume n: "find_invoice d (int_of invoice_id) = None"
  show "\<exists>e. delete_invoice_with_cascade faults invoice_id d = (Inl e, d)"
    using delete_invoice_not_found[OF n] by blast
  show "delete_invoice_with_cascade faults invoice_id d = (Inl MissingInvoiceId, d)"
    if "falsy_id invoice_id"
    using delete_invoice_not_found[OF n, of faults] that by simp
  show "delete_invoice_with_cascade faults invoice_id d =
      (Inl (InvoiceDeletionFailed InvoiceNotFound), d)"
    if "\<not> falsy_id invoice_id \<and> \<not> faults BeginTransaction"
    using delete_invoice_not_found[OF n, of faults] that by simp
next
  assume n: "find_receipt d (int_of receipt_id) = None"
  show "\<exists>e. delete_receipt_with_cascade faults receipt_id d = (Inl e, d)"
    using delete_receipt_not_found[OF n] by blast
  show "delete_receipt_with_cascade faults receipt_id d =
      (Inl (ReceiptDeletionFailed MissingReceiptId), d)"
    if "falsy_id receipt_id"
    using delete_receipt_not_found[OF n, of faults] that by simp
  show "delete_receipt_with_cascade faults receipt_id d =
      (Inl (ReceiptDeletionFailed InvalidReceiptId), d)"
    if "int_of receipt_id < 0"
    using delete_receipt_not_found[OF n, of faults] that
    by (auto simp: falsy_id_def int_of_def split: option.splits)
  show "delete_receipt_with_cascade faults receipt_id d =
      (Inl (ReceiptDeletionFailed ReceiptNotFound), d)"
    if "0 < int_of receipt_id \<and> \<not> faults BeginTransaction \<and> \<not> faults SelReceipt"
    using delete_receipt_not_found[OF n, of faults] that
    by (auto simp: falsy_id_def int_of_def split: option.splits)
next
  fix resp d'
  assume s: "delete_invoice_with_cascade faults invoice_id d = (Inr resp, d')"
  show g: "find_invoice d' (int_of invoice_id) = None"
    by (rule delete_invoice_success_gone[OF s])
  have t: "\<not> falsy_id invoice_id"
    using s by (auto simp: delete_invoice_with_cascade_def split: if_splits)
  show "delete_invoice_with_cascade faults2 invoice_id d' =
      (Inl (InvoiceDeletionFailed InvoiceNotFound), d')"
    if "\<not> faults2 BeginTransaction" for faults2
    using delete_invoice_not_found[OF g, of faults2] that t by simp
next
  fix resp d'
  assume s: "delete_receipt_with_cascade faults receipt_id d = (Inr resp, d')"
  show g: "find_receipt d' (int_of receipt_id) = None"
    by (rule delete_receipt_success_gone[OF s])
  have t: "\<not> falsy_id receipt_id" "\<not> int_of receipt_id \<le> 0"
    using s by (auto simp: delete_receipt_with_cascade_def split: if_splits)
  show "delete_receipt_with_cascade faults2 receipt_id d' =
      (Inl (ReceiptDeletionFailed ReceiptNotFound), d')"
    if "\<not> faults2 BeginTransaction \<and> \<not> faults2 SelReceipt" for faults2
    using delete_receipt_not_found[OF g, of faults2] that t by simp
qed

text \<open>
  In the store with receipts 1 and 2 of invoice 1, the ids 9 refer to nothing: both
  deletions report not found and return the store unchanged.
\<close>

theorem C9_not_found_is_terminal_witness:
  "delete_invoice_with_cascade no_faults (Some 9) db_two_receipts =
     (Inl (InvoiceDeletionFailed InvoiceNotFound), db_two_receipts) \<and>
   delete_receipt_with_cascade no_faults (Some 9) db_two_receipts =
     (Inl (ReceiptDeletionFailed ReceiptNotFound), db_two_receipts)"
proof -
  have a: "find_invoice db_two_receipts (int_of (Some 9)) = None"
    by (simp add: find_invoice_def int_of_def db_two_receipts_def invoice_1000_def)
  have b: "find_receipt db_two_receipts (int_of (Some 9)) = None"
    by (simp add: find_receipt_def int_of_def db_two_receipts_def receipt_600_def
        receipt_400_def)
  note t = C9_not_found_is_terminal [of db_two_receipts "Some 9" no_faults "Some 9"]
  have i: "delete_invoice_with_cascade no_faults (Some 9) db_two_receipts =
     (Inl (InvoiceDeletionFailed InvoiceNotFound), db_two_receipts)"
    using t[THEN conjunct1, THEN mp, OF a, THEN conjunct2, THEN conjunct2]
    by (simp add: falsy_id_def no_faults_def)
  have r: "delete_receipt_with_cascade no_faults (Some 9) db_two_receipts =
     (Inl (ReceiptDeletionFailed ReceiptNotFound), db_two_receipts)"
    using t[THEN conjunct2, THEN conjunct1, THEN mp, OF b, THEN conjunct2, THEN conjunct2,
        THEN conjunct2]
    by (simp add: int_of_def no_faults_def)
  show ?thesis using i r by (rule conjI)
qed

text \<open>
  C9 as stated fails: the receipt ids 0 and -3 and the invoice id 0 refer to nothing,
  and the deletions fail without writing, but with the errors for a missing or an
  invalid parameter, not with the not-found error.
\<close>

theorem C9_counterexample:
  "find_receipt db0 0 = None \<and>
   delete_receipt_with_cascade no_faults (Some 0) db0 =
     (Inl (ReceiptDeletionFailed MissingReceiptId), db0) \<and>
   delete_receipt_with_cascade no_faults (Some 0) db0 \<noteq>
     (Inl (ReceiptDeletionFailed ReceiptNotFound), db0) \<and>
   find_receipt db0 (- 3) = None \<and>
   delete_receipt_with_cascade no_faults (Some (- 3)) db0 =
     (Inl (ReceiptDeletionFailed InvalidReceiptId), db0) \<and>
   find_invoice db0 0 = None \<and>
   delete_invoice_with_cascade no_faults (Some 0) db0 = (Inl MissingInvoiceId, db0) \<and>
   delete_invoice_with_cascade no_faults (Some 0) db0 \<noteq>
     (Inl (InvoiceDeletionFailed InvoiceNotFound), db0)"
  by (simp add: delete_receipt_with_cascade_def delete_invoice_with_cascade_def falsy_id_def
      int_of_def find_receipt_def find_invoice_def db0_def)

subsection \<open>Document numbers and the creation transaction\<close>

text \<open>
  C10. Take a request with a company, a customer and an amount that supplies neither
  an invoice number nor a payment number, and suppose that none of the allocator's
  statements fails. Let \<open>ki\<close> and \<open>kp\<close> be the values of the \<open>INV\<close> and \<open>PAY\<close> counters of
  the current year before the call (0 when the row is absent). If the action
  create-receipt-with-items-transaction then ends with an error, the error is that of
  the transaction (its start, a statement of its body, or its commit), and the store
  the action leaves is exactly the store after the two draws of
  \<open>getNextDocumentNumberInternal\<close>, made before the transaction: the counters stand at
  \<open>ki + 1\<close> and \<open>kp + 1\<close>, the journal has gained the counter statements and nothing
  else, and the six tables of the document graph are as before. The numbers drawn are
  not given out again: the next draws return the numbers \<open>ki + 2\<close> and \<open>kp + 2\<close>, which
  differ from the ones drawn, so \<open>ki + 1\<close> and \<open>kp + 1\<close> are gaps.

  The allocator has no transaction of its own either: when its read-back fails after
  the increment, it returns the error and the counter stays incremented.
\<close>

theorem C10_numbers_are_drawn_outside_the_transaction:
  assumes v: "\<not> falsy_id (rq_company_id rq)" "\<not> falsy_id (rq_customer_id rq)"
      "p_amount (rq_payment rq) \<noteq> None"
    and n: "empty_str (i_invoice_number (rq_invoice rq))"
      "empty_str (p_payment_number (rq_payment rq))"
    and ok: "\<forall>ty. \<not> faults (SeqCheck ty) \<and> \<not> faults (SeqInsert ty) \<and>
                  \<not> faults (SeqUpdate ty) \<and> \<not> faults (SeqFetch ty)"
    and ki: "seq_lookup d ''INV'' (current_year ev) = Some ki \<or>
             seq_lookup d ''INV'' (current_year ev) = None \<and> ki = 0"
    and kp: "seq_lookup d ''PAY'' (current_year ev) = Some kp \<or>
             seq_lookup d ''PAY'' (current_year ev) = None \<and> kp = 0"
    and f: "create_receipt_with_items_transaction ev faults rq d = (Inl e, d')"
  shows "(e = FailedStartTransaction \<or> (\<exists>e'. e = ReceiptCreationFailed e')) \<and>
    (\<exists>d1. getNextDocumentNumberInternal ev faults ''INV'' None d =
             (Inr (format_document_number ''INV'' (current_year ev) (ki + 1)), d1) \<and>
           getNextDocumentNumberInternal ev faults ''PAY'' None d1 =
             (Inr (format_document_number ''PAY'' (current_year ev) (kp + 1)), d')) \<and>
    seq_lookup d' ''INV'' (current_year ev) = Some (ki + 1) \<and>
    seq_lookup d' ''PAY'' (current_year ev) = Some (kp + 1) \<and>
    journal d' = journal d @
      (if seq_lookup d ''INV'' (current_year ev) = None
       then [SeqInsert ''INV'', SeqUpdate ''INV''] else [SeqUpdate ''INV'']) @
      (if seq_lookup d ''PAY'' (current_year ev) = None
       then [SeqInsert ''PAY'', SeqUpdate ''PAY''] else [SeqUpdate ''PAY'']) \<and>
    invoices d' = invoices d \<and> invoice_items d' = invoice_items d \<and>
    payments d' = payments d \<and> payment_allocations d' = payment_allocations d \<and>
    receipts d' = receipts d \<and> receipt_items d' = receipt_items d \<and>
    (\<exists>d''. getNextDocumentNumberInternal ev faults ''INV'' None d' =
             (Inr (format_document_number ''INV'' (current_year ev) (ki + 2)), d'')) \<and>
    (\<exists>d''. getNextDocumentNumberInternal ev faults ''PAY'' None d' =
             (Inr (format_document_number ''PAY'' (current_year ev) (kp + 2)), d'')) \<and>
    format_document_number ''INV'' (current_year ev) (ki + 2) \<noteq>
      format_document_number ''INV'' (current_year ev) (ki + 1) \<and>
    format_document_number ''PAY'' (current_year ev) (kp + 2) \<noteq>
      format_document_number ''PAY'' (current_year ev) (kp + 1) \<and>
    (\<forall>faults2.
       \<not> faults2 (SeqCheck ''INV'') \<and> \<not> faults2 (SeqInsert ''INV'') \<and>
       \<not> faults2 (SeqUpdate ''INV'') \<and> faults2 (SeqFetch ''INV'') \<longrightarrow>
       (\<exists>d1. getNextDocumentNumberInternal ev faults2 ''INV'' None d =
                (Inl FailedFetchSequence, d1) \<and>
              seq_lookup d1 ''INV'' (current_year ev) = Some (ki + 1)))"
proof -
  let ?yr = "current_year ev"
  have m: "''INV'' \<in> set valid_types_internal" "''PAY'' \<in> set valid_types_internal"
    by (simp_all add: valid_types_internal_def)
  have oki: "\<not> faults (SeqCheck ''INV'')" "\<not> faults (SeqInsert ''INV'')"
    "\<not> faults (SeqUpdate ''INV'')" "\<not> faults (SeqFetch ''INV'')"
    using ok[THEN spec, of "''INV''"] by simp_all
  have okp: "\<not> faults (SeqCheck ''PAY'')" "\<not> faults (SeqInsert ''PAY'')"
    "\<not> faults (SeqUpdate ''PAY'')" "\<not> faults (SeqFetch ''PAY'')"
    using ok[THEN spec, of "''PAY''"] by simp_all
  have ne: "(''PAY'', ?yr) \<noteq> (''INV'', ?yr)" "(''INV'', ?yr) \<noteq> (''PAY'', ?yr)" by simp_all
  from allocate_internal[OF oki m(1) ki] obtain d1 where
    A1: "getNextDocumentNumberInternal ev faults ''INV'' None d =
           (Inr (format_document_number ''INV'' ?yr (ki + 1)), d1) \<and>
      seq_lookup d1 ''INV'' ?yr = Some (ki + 1) \<and>
      (\<forall>ty' yr'. (ty', yr') \<noteq> (''INV'', ?yr) \<longrightarrow>
         seq_lookup d1 ty' yr' = seq_lookup d ty' yr') \<and>
      journal d1 = journal d @
         (if seq_lookup d ''INV'' ?yr = None then [SeqInsert ''INV'', SeqUpdate ''INV'']
          else [SeqUpdate ''INV''])"
    by (rule exE)
  note g1 = A1[THEN conjunct1]
  note l1 = A1[THEN conjunct2, THEN conjunct1]
  note o1 = A1[THEN conjunct2, THEN conjunct2, THEN conjunct1]
  note j1 = A1[THEN conjunct2, THEN conjunct2, THEN conjunct2]
  have p1: "seq_lookup d1 ''PAY'' ?yr = seq_lookup d ''PAY'' ?yr"
    by (rule o1[rule_format, OF ne(1)])
  have kp1: "seq_lookup d1 ''PAY'' ?yr = Some kp \<or> seq_lookup d1 ''PAY'' ?yr = None \<and> kp = 0"
    using kp unfolding p1 .
  from allocate_internal[OF okp m(2) kp1] obtain d2 where
    A2: "getNextDocumentNumberInternal ev faults ''PAY'' None d1 =
           (Inr (format_document_number ''PAY'' ?yr (kp + 1)), d2) \<and>
      seq_lookup d2 ''PAY'' ?yr = Some (kp + 1) \<and>
      (\<forall>ty' yr'. (ty', yr') \<noteq> (''PAY'', ?yr) \<longrightarrow>
         seq_lookup d2 ty' yr' = seq_lookup d1 ty' yr') \<and>
      journal d2 = journal d1 @
         (if seq_lookup d1 ''PAY'' ?yr = None then [SeqInsert ''PAY'', SeqUpdate ''PAY'']
          else [SeqUpdate ''PAY''])"
    by (rule exE)
  note g2 = A2[THEN conjunct1]
  note l2 = A2[THEN conjunct2, THEN conjunct1]
  note o2 = A2[THEN conjunct2, THEN conjunct2, THEN conjunct1]
  note j2 = A2[THEN conjunct2, THEN conjunct2, THEN conjunct2]
  note a = create_failure_after_draws[OF v n g1 g2 f]
  have e: "d' = d2" using a by (rule conjunct1)
  have c1: "e = FailedStartTransaction \<or> (\<exists>e'. e = ReceiptCreationFailed e')"
    using a by (rule conjunct2)
  have c2: "\<exists>d1. getNextDocumentNumberInternal ev faults ''INV'' None d =
             (Inr (format_document_number ''INV'' ?yr (ki + 1)), d1) \<and>
           getNextDocumentNumberInternal ev faults ''PAY'' None d1 =
             (Inr (format_document_number ''PAY'' ?yr (kp + 1)), d')"
    unfolding e by (intro exI[of _ d1] conjI g1 g2)
  have l2i: "seq_lookup d2 ''INV'' ?yr = Some (ki + 1)"
    by (simp only: o2[rule_format, OF ne(2)] l1)
  have c3: "seq_lookup d' ''INV'' ?yr = Some (ki + 1)" unfolding e by (rule l2i)
  have c4: "seq_lookup d' ''PAY'' ?yr = Some (kp + 1)" unfolding e by (rule l2)
  have c5: "journal d' = journal d @
      (if seq_lookup d ''INV'' ?yr = None
       then [SeqInsert ''INV'', SeqUpdate ''INV''] else [SeqUpdate ''INV'']) @
      (if seq_lookup d ''PAY'' ?yr = None
       then [SeqInsert ''PAY'', SeqUpdate ''PAY''] else [SeqUpdate ''PAY''])"
    by (simp only: e j2 j1 p1 append_assoc)
  note fp = only_sequences_changed_fields[OF create_failure_footprint[OF f]]
  have ki2: "seq_lookup d' ''INV'' ?yr = Some (ki + 1) \<or>
             seq_lookup d' ''INV'' ?yr = None \<and> ki + 1 = 0"
    by (rule disjI1) (rule c3)
  have kp2: "seq_lookup d' ''PAY'' ?yr = Some (kp + 1) \<or>
             seq_lookup d' ''PAY'' ?yr = None \<and> kp + 1 = 0"
    by (rule disjI1) (rule c4)
  have s: "ki + 2 = ki + 1 + 1" "kp + 2 = kp + 1 + 1" by simp_all
  have c6: "\<exists>d''. getNextDocumentNumberInternal ev faults ''INV'' None d' =
             (Inr (format_document_number ''INV'' ?yr (ki + 2)), d'')"
    unfolding s by (rule allocate_internal_number[OF oki m(1) ki2])
  have c7: "\<exists>d''. getNextDocumentNumberInternal ev faults ''PAY'' None d' =
             (Inr (format_document_number ''PAY'' ?yr (kp + 2)), d'')"
    unfolding s by (rule allocate_internal_number[OF okp m(2) kp2])
  have c8: "format_document_number ''INV'' ?yr (ki + 2) \<noteq>
      format_document_number ''INV'' ?yr (ki + 1)"
  proof
    assume "format_document_number ''INV'' ?yr (ki + 2) =
      format_document_number ''INV'' ?yr (ki + 1)"
    then have "ki + 2 = ki + 1" by (rule format_document_number_inj)
    then show False by simp
  qed
  have c9: "format_document_number ''PAY'' ?yr (kp + 2) \<noteq>
      format_document_number ''PAY'' ?yr (kp + 1)"
  proof
    assume "format_document_number ''PAY'' ?yr (kp + 2) =
      format_document_number ''PAY'' ?yr (kp + 1)"
    then have "kp + 2 = kp + 1" by (rule format_document_number_inj)
    then show False by simp
  qed
  have c10: "\<forall>faults2.
       \<not> faults2 (SeqCheck ''INV'') \<and> \<not> faults2 (SeqInsert ''INV'') \<and>
       \<not> faults2 (SeqUpdate ''INV'') \<and> faults2 (SeqFetch ''INV'') \<longrightarrow>
       (\<exists>d1. getNextDocumentNumberInternal ev faults2 ''INV'' None d =
                (Inl FailedFetchSequence, d1) \<and>
              seq_lookup d1 ''INV'' ?yr = Some (ki + 1))"
  proof (intro allI impI)
    fix faults2
    assume h: "\<not> faults2 (SeqCheck ''INV'') \<and> \<not> faults2 (SeqInsert ''INV'') \<and>
       \<not> faults2 (SeqUpdate ''INV'') \<and> faults2 (SeqFetch ''INV'')"
    show "\<exists>d1. getNextDocumentNumberInternal ev faults2 ''INV'' None d =
                (Inl FailedFetchSequence, d1) \<and>
              seq_lookup d1 ''INV'' ?yr = Some (ki + 1)"
      by (rule allocate_internal_fetch_fault[OF h[THEN conjunct1]
            h[THEN conjunct2, THEN conjunct1] h[THEN conjunct2, THEN conjunct2, THEN conjunct1]
            h[THEN conjunct2, THEN conjunct2, THEN conjunct2] m(1) ki])
  qed
  show ?thesis
    by (intro conjI c1 c2 c3 c4 c5 fp(1) fp(2) fp(3) fp(4) fp(5) fp(6) c6 c7 c8 c9 c10)
qed

text \<open>
  C10 on the empty store: the request with one item whose receipt-item insert fails
  ends with an error; the counters \<open>INV\<close> and \<open>PAY\<close> of 2026 stand at 1 although no
  document exists, the journal holds the four counter statements only, and the next
  invoice number drawn is \<open>INV-2026-0002\<close>. A draw whose read-back fails leaves the
  counter at 1 as well.
\<close>

theorem C10_numbers_are_drawn_outside_the_transaction_witness:
  "\<exists>e d'.
     create_receipt_with_items_transaction env0 fail_first_receipt_item
       (request_with (Some 232) [item1]) db0 = (Inl e, d') \<and>
     seq_lookup d' ''INV'' 2026 = Some 1 \<and> seq_lookup d' ''PAY'' 2026 = Some 1 \<and>
     journal d' = [SeqInsert ''INV'', SeqUpdate ''INV'', SeqInsert ''PAY'', SeqUpdate ''PAY''] \<and>
     invoices d' = [] \<and> payments d' = [] \<and> receipts d' = [] \<and>
     (\<exists>d''. getNextDocumentNumberInternal env0 fail_first_receipt_item ''INV'' None d' =
              (Inr ''INV-2026-0002'', d'')) \<and>
     (\<exists>d1. getNextDocumentNumberInternal env0 fail_invoice_seq_fetch ''INV'' None db0 =
              (Inl FailedFetchSequence, d1) \<and>
            seq_lookup d1 ''INV'' 2026 = Some 1)"
proof -
  let ?rq = "request_with (Some 232) [item1]"
  have cy: "current_year env0 = 2026" by (simp add: env0_def)
  have v: "\<not> falsy_id (rq_company_id ?rq)" "\<not> falsy_id (rq_customer_id ?rq)"
    "p_amount (rq_payment ?rq) \<noteq> None"
    by (simp_all add: request_with_def falsy_id_def)
  have n: "empty_str (i_invoice_number (rq_invoice ?rq))"
    "empty_str (p_payment_number (rq_payment ?rq))"
    by (simp_all add: request_with_def empty_str_def)
  have ok: "\<forall>ty. \<not> fail_first_receipt_item (SeqCheck ty) \<and>
                 \<not> fail_first_receipt_item (SeqInsert ty) \<and>
                 \<not> fail_first_receipt_item (SeqUpdate ty) \<and>
                 \<not> fail_first_receipt_item (SeqFetch ty)"
    by (simp add: fail_first_receipt_item_def)
  have li: "seq_lookup db0 ''INV'' 2026 = None" and lp: "seq_lookup db0 ''PAY'' 2026 = None"
    by (simp_all add: seq_lookup_def db0_def)
  have ki: "seq_lookup db0 ''INV'' (current_year env0) = Some 0 \<or>
            seq_lookup db0 ''INV'' (current_year env0) = None \<and> (0::nat) = 0"
    by (simp add: cy li)
  have kp: "seq_lookup db0 ''PAY'' (current_year env0) = Some 0 \<or>
            seq_lookup db0 ''PAY'' (current_year env0) = None \<and> (0::nat) = 0"
    by (simp add: cy lp)
  have it: "rq_items ?rq \<noteq> []" "fail_first_receipt_item (InsReceiptItem 0)"
    by (simp_all add: request_with_def fail_first_receipt_item_def)
  obtain e d' where
    f: "create_receipt_with_items_transaction env0 fail_first_receipt_item ?rq db0 = (Inl e, d')"
    using create_fails_on_receipt_item_fault[of ?rq fail_first_receipt_item env0 db0, OF it]
    by blast
  have ff: "\<not> fail_invoice_seq_fetch (SeqCheck ''INV'') \<and>
            \<not> fail_invoice_seq_fetch (SeqInsert ''INV'') \<and>
            \<not> fail_invoice_seq_fetch (SeqUpdate ''INV'') \<and>
            fail_invoice_seq_fetch (SeqFetch ''INV'')"
    by (simp add: fail_invoice_seq_fetch_def)
  have p: "pad4 2 = ''0002''"
    by (simp add: pad4_def show_nat.simps digit_char_def numeral_3_eq_3)
  have y: "show_int 2026 = ''2026''"
    by (simp add: show_int_def show_nat.simps digit_char_def)
  have fm: "format_document_number ''INV'' 2026 2 = ''INV-2026-0002''"
    unfolding format_document_number_def p y by simp
  have a02: "(0::nat) + 2 = 2" by simp
  have z: "journal db0 = []" "invoices db0 = []" "payments db0 = []" "receipts db0 = []"
    by (simp_all add: db0_def)
  note t = C10_numbers_are_drawn_outside_the_transaction [OF v n ok ki kp f, unfolded cy]
  have c3: "seq_lookup d' ''INV'' 2026 = Some 1" using t[THEN conjunct2, THEN conjunct2, THEN conjunct1] by simp
  have c4: "seq_lookup d' ''PAY'' 2026 = Some 1" using t[THEN conjunct2, THEN conjunct2, THEN conjunct2, THEN conjunct1] by simp
  have c5: "journal d' =
      [SeqInsert ''INV'', SeqUpdate ''INV'', SeqInsert ''PAY'', SeqUpdate ''PAY'']"
    using t[THEN conjunct2, THEN conjunct2, THEN conjunct2, THEN conjunct2, THEN conjunct1] by (simp add: li lp z)
  have c6: "invoices d' = []" using t[THEN conjunct2, THEN conjunct2, THEN conjunct2, THEN conjunct2, THEN conjunct2, THEN conjunct1] by (simp add: z)
  have c8: "payments d' = []" using t[THEN conjunct2, THEN conjunct2, THEN conjunct2, THEN conjunct2, THEN conjunct2, THEN conjunct2, THEN conjunct2, THEN conjunct1] by (simp add: z)
  have c10: "receipts d' = []" using t[THEN conjunct2, THEN conjunct2, THEN conjunct2, THEN conjunct2, THEN conjunct2, THEN conjunct2, THEN conjunct2, THEN conjunct2, THEN conjunct2, THEN conjunct1] by (simp add: z)
  have c12: "\<exists>d''. getNextDocumentNumberInternal env0 fail_first_receipt_item ''INV'' None d' =
              (Inr ''INV-2026-0002'', d'')"
    using t[THEN conjunct2, THEN conjunct2, THEN conjunct2, THEN conjunct2, THEN conjunct2, THEN conjunct2, THEN conjunct2, THEN conjunct2, THEN conjunct2, THEN conjunct2, THEN conjunct2, THEN conjunct1] unfolding a02 fm .
  have c16: "\<exists>d1. getNextDocumentNumberInternal env0 fail_invoice_seq_fetch ''INV'' None db0 =
              (Inl FailedFetchSequence, d1) \<and>
            seq_lookup d1 ''INV'' 2026 = Some 1"
    using t[THEN conjunct2, THEN conjunct2, THEN conjunct2, THEN conjunct2, THEN conjunct2, THEN conjunct2, THEN conjunct2, THEN conjunct2, THEN conjunct2, THEN conjunct2, THEN conjunct2, THEN conjunct2, THEN conjunct2, THEN conjunct2, THEN conjunct2, THEN spec, of fail_invoice_seq_fetch, THEN mp, OF ff] by simp
  show ?thesis
    by (intro exI[of _ e] exI[of _ d'] conjI f c3 c4 c5 c6 c8 c10 c12 c16)
qed

end
